theory Spec2Isabelle
  imports Main "HOL-Library.Word"
begin

section \<open>The output submitter of op-proposer (proposer/driver.go)\<close>

text \<open>
  A shallow embedding of \<^verbatim>\<open>op-proposer/proposer/driver.go\<close>. The collaborators of the
  driver that answer (rollup client, transaction manager, contract bindings, and the
  \<^verbatim>\<open>done\<close> channel as the worker sees it) are interfaces in the source and records of
  functions here. A collaborator may answer differently at every call, so each of its
  methods takes the number of interactions made so far (the length of the trace) as its
  first argument. Every interaction appends one event to the trace, which is threaded
  through all functions; the trace is what "performs no output fetch" or "records the
  metric" are stated on. The metrics sink returns nothing: its call is an event only.
  Logger calls and the timeouts of derived contexts are left out; a call that times out
  is a call that answers with an error.
\<close>

subsection \<open>Data model\<close>

type_synonym u64 = "64 word"
type_synonym u32 = "32 word"
type_synonym Bytes32 = "256 word"  \<comment> \<open>\<^verbatim>\<open>[32]byte\<close>, read as one big-endian number\<close>
type_synonym Hash = "256 word"
type_synonym Address = "160 word"
type_synonym bytes = "8 word list"

text \<open>
  The types of package \<^verbatim>\<open>eth\<close> are declared outside this file of the repository.
  Modelled from the spec: the block references, the sync status and the output response
  carry the fields of the spec's data model, which are the fields the driver reads.
\<close>

record L1BlockRef =
  L1_Hash :: Hash
  L1_Number :: u64

record L2BlockRef =
  L2_Hash :: Hash
  L2_Number :: u64
  L2_Time :: u64

record SyncStatus =
  CurrentL1 :: L1BlockRef
  HeadL1 :: L1BlockRef
  SafeL2 :: L2BlockRef
  FinalizedL2 :: L2BlockRef

record OutputResponse =
  Version :: Bytes32
  OutputRoot :: Bytes32
  BlockRef :: L2BlockRef
  Status :: SyncStatus

definition supportedL2OutputVersion :: Bytes32 where
  "supportedL2OutputVersion = 0"

datatype error =
    External string  \<comment> \<open>an error value handed back by a collaborator\<close>
  | NeitherAddressProvided
  | FailedToCreateL2OO error
  | FailedToCreateDGF error
  | AlreadyRunning
  | ErrProposerNotRunning
  | L2OOContractNotSet
  | QueryingNextBlockNumber error
  | FetchingOutput error
  | GettingRollupClient error
  | GettingSyncStatus error
  | FetchingOutputAtBlock u64 error
  | UnsupportedVersion Bytes32 Bytes32
  | BlockMismatch u64 u64
  | SubmitterDone
  | FailedToRetrieveL1BlockNumber error
  | FailedToGetRollupClient error

datatype panic = NilPointerDereference | CloseOfClosedChannel

datatype 'a outcome = Returns 'a | Panics panic

record TxCandidate =
  TxData :: bytes
  To :: "Address option"
  GasLimit :: u64
  Value :: "nat option"

record Receipt =
  ReceiptStatus :: u64
  TxHash :: Hash

definition ReceiptStatusFailed :: u64 where
  "ReceiptStatusFailed = 0"

datatype abi_arg =
    ArgBytes32 Bytes32
  | ArgBigInt nat
  | ArgHash Hash
  | ArgUint32 u32

datatype select_case = TickerFired | DoneClosed

datatype event =
    EvNewL2OutputOracleCaller Address
  | EvNewDisputeGameFactoryCaller Address
  | EvL2OOVersion
  | EvDGFVersion
  | EvGetAbi
  | EvContextCancel
  | EvNextBlockNumber
  | EvRollupClient
  | EvSyncStatus
  | EvOutputAtBlock u64
  | EvBlockNumber "error + u64"
  | EvInitBonds u32
  | EvSend TxCandidate
  | EvSelect select_case
  | EvPollDone bool
  | EvSleep nat
  | EvWaitRollupSync u64
  | EvRecordL2BlocksProposed L2BlockRef

type_synonym trace = "event list"

subsection \<open>Collaborators\<close>

record ABI =
  Pack :: "string \<Rightarrow> abi_arg list \<Rightarrow> error + bytes"

record L2OOContract =
  L2OO_Version :: "nat \<Rightarrow> error + string"
  NextBlockNumber :: "nat \<Rightarrow> error + nat"

record DisputeGameFactoryCaller =
  DGF_Version :: "nat \<Rightarrow> error + string"
  InitBonds :: "nat \<Rightarrow> u32 \<Rightarrow> error + nat"

record RollupClient =
  SyncStatus_call :: "nat \<Rightarrow> error + SyncStatus"
  OutputAtBlock :: "nat \<Rightarrow> u64 \<Rightarrow> error + OutputResponse"

record TxManager =
  From :: Address
  BlockNumber :: "nat \<Rightarrow> error + u64"
  Send :: "nat \<Rightarrow> TxCandidate \<Rightarrow> error + Receipt"

record Bindings =
  NewL2OutputOracleCaller :: "nat \<Rightarrow> Address \<Rightarrow> error + L2OOContract"
  L2OutputOracleMetaData_GetAbi :: "nat \<Rightarrow> error + ABI"
  NewDisputeGameFactoryCaller :: "nat \<Rightarrow> Address \<Rightarrow> error + DisputeGameFactoryCaller"
  DisputeGameFactoryMetaData_GetAbi :: "nat \<Rightarrow> error + ABI"

record ProposerConfig =
  L2OutputOracleAddr :: "Address option"
  DisputeGameFactoryAddr :: "Address option"
  PollInterval :: nat
  NetworkTimeout :: nat
  AllowNonFinalized :: bool
  ProposalInterval :: nat
  OutputRetryInterval :: nat
  DisputeGameType :: u32
  WaitNodeSync :: bool

text \<open>
  \<^verbatim>\<open>DriverSetup\<close>. \<open>RollupProvider\<close> is the provider's \<^verbatim>\<open>RollupClient(ctx)\<close>;
  \<open>bindings\<close> is the imported package of contract bindings, \<open>dial_WaitRollupSync\<close>
  the imported \<^verbatim>\<open>dial.WaitRollupSync\<close>; \<open>done_select\<close> and
  \<open>done_poll\<close> are what the worker goroutine sees of the channel \<^verbatim>\<open>l.done\<close>, which
  another goroutine closes: which case a blocking \<^verbatim>\<open>select\<close> between the ticker and
  \<^verbatim>\<open>l.done\<close> takes, and whether a \<^verbatim>\<open>select\<close> with a \<^verbatim>\<open>default\<close> finds it closed.
\<close>

record DriverSetup =
  Cfg :: ProposerConfig
  Txmgr :: TxManager
  RollupProvider :: "nat \<Rightarrow> error + RollupClient"
  bindings :: Bindings
  dial_WaitRollupSync :: "nat \<Rightarrow> u64 \<Rightarrow> error option"
  done_select :: "nat \<Rightarrow> select_case"
  done_poll :: "nat \<Rightarrow> bool"

text \<open>
  \<^verbatim>\<open>L2OutputSubmitter\<close>. \<open>wg\<close> is the counter of the wait group, \<open>done_closed\<close> the
  state of the channel \<^verbatim>\<open>done\<close>, \<open>ctx_cancelled\<close> that of the context, \<open>spawned\<close>
  counts the \<^verbatim>\<open>go l.loop()\<close> statements executed.
\<close>

record L2OutputSubmitter =
  DriverSetup :: DriverSetup
  wg :: nat
  done_closed :: bool
  ctx_cancelled :: bool
  running :: bool
  spawned :: nat
  l2ooContract :: "L2OOContract option"
  l2ooABI :: "ABI option"
  dgfContract :: "DisputeGameFactoryCaller option"
  dgfABI :: "ABI option"

subsection \<open>Fetching\<close>

definition FetchCurrentBlockNumber :: "L2OutputSubmitter \<Rightarrow> trace \<Rightarrow> (error + u64) \<times> trace" where
  "FetchCurrentBlockNumber l tr =
     (case RollupProvider (DriverSetup l) (length tr) of
        Inl err \<Rightarrow> (Inl (GettingRollupClient err), tr @ [EvRollupClient])
      | Inr rollupClient \<Rightarrow>
          (let tr1 = tr @ [EvRollupClient] in
           case SyncStatus_call rollupClient (length tr1) of
             Inl err \<Rightarrow> (Inl (GettingSyncStatus err), tr1 @ [EvSyncStatus])
           | Inr status \<Rightarrow>
               (if AllowNonFinalized (Cfg (DriverSetup l))
                then (Inr (L2_Number (SafeL2 status)), tr1 @ [EvSyncStatus])
                else (Inr (L2_Number (FinalizedL2 status)), tr1 @ [EvSyncStatus]))))"

definition FetchOutput :: "L2OutputSubmitter \<Rightarrow> u64 \<Rightarrow> trace \<Rightarrow> (error + OutputResponse) \<times> trace" where
  "FetchOutput l block tr =
     (case RollupProvider (DriverSetup l) (length tr) of
        Inl err \<Rightarrow> (Inl (GettingRollupClient err), tr @ [EvRollupClient])
      | Inr rollupClient \<Rightarrow>
          (let tr1 = tr @ [EvRollupClient]; tr2 = tr1 @ [EvOutputAtBlock block] in
           case OutputAtBlock rollupClient (length tr1) block of
             Inl err \<Rightarrow> (Inl (FetchingOutputAtBlock block err), tr2)
           | Inr output \<Rightarrow>
               (if Version output \<noteq> supportedL2OutputVersion
                then (Inl (UnsupportedVersion (Version output) supportedL2OutputVersion), tr2)
                else if L2_Number (BlockRef output) \<noteq> block
                then (Inl (BlockMismatch (L2_Number (BlockRef output)) block), tr2)
                else (Inr output, tr2))))"

text \<open>
  \<^verbatim>\<open>FetchL2OOOutput\<close> returns \<^verbatim>\<open>(*OutputResponse, bool, error)\<close>: the pair of an
  optional output and the flag, or the error. \<^verbatim>\<open>big.Int.Uint64\<close> keeps the low 64 bits.
\<close>

definition FetchL2OOOutput ::
  "L2OutputSubmitter \<Rightarrow> trace \<Rightarrow> (error + (OutputResponse option \<times> bool)) \<times> trace" where
  "FetchL2OOOutput l tr =
     (case l2ooContract l of
        None \<Rightarrow> (Inl L2OOContractNotSet, tr)
      | Some c \<Rightarrow>
          (let tr1 = tr @ [EvNextBlockNumber] in
           case NextBlockNumber c (length tr) of
             Inl err \<Rightarrow> (Inl (QueryingNextBlockNumber err), tr1)
           | Inr nextCheckpointBlockBig \<Rightarrow>
               (let nextCheckpointBlock = (word_of_nat nextCheckpointBlockBig :: u64) in
                case FetchCurrentBlockNumber l tr1 of
                  (Inl err, tr2) \<Rightarrow> (Inl err, tr2)
                | (Inr currentBlockNumber, tr2) \<Rightarrow>
                    (if currentBlockNumber < nextCheckpointBlock
                     then (Inr (None, False), tr2)
                     else
                       (case FetchOutput l nextCheckpointBlock tr2 of
                          (Inl err, tr3) \<Rightarrow> (Inl (FetchingOutput err), tr3)
                        | (Inr output, tr3) \<Rightarrow>
                            (if L2_Number (BlockRef output) > L2_Number (FinalizedL2 (Status output))
                                \<and> (\<not> AllowNonFinalized (Cfg (DriverSetup l))
                                     \<or> L2_Number (BlockRef output) > L2_Number (SafeL2 (Status output)))
                             then (Inr (Some output, False), tr3)
                             else (Inr (Some output, True), tr3)))))))"

definition FetchDGFOutput :: "L2OutputSubmitter \<Rightarrow> trace \<Rightarrow> (error + OutputResponse) \<times> trace" where
  "FetchDGFOutput l tr =
     (case FetchCurrentBlockNumber l tr of
        (Inl err, tr1) \<Rightarrow> (Inl err, tr1)
      | (Inr blockNum, tr1) \<Rightarrow> FetchOutput l blockNum tr1)"

subsection \<open>Transaction data\<close>

text \<open>
  \<^verbatim>\<open>abi.Pack\<close> on a nil \<^verbatim>\<open>*abi.ABI\<close> and a method of a nil contract handle that
  reads the handle are nil pointer dereferences: the run panics there.
\<close>

definition proposeL2OutputTxData :: "ABI option \<Rightarrow> OutputResponse \<Rightarrow> (error + bytes) outcome" where
  "proposeL2OutputTxData abi output =
     (case abi of
        None \<Rightarrow> Panics NilPointerDereference
      | Some a \<Rightarrow>
          Returns (Pack a ''proposeL2Output''
            [ArgBytes32 (OutputRoot output),
             ArgBigInt (unat (L2_Number (BlockRef output))),
             ArgHash (L1_Hash (CurrentL1 (Status output))),
             ArgBigInt (unat (L1_Number (CurrentL1 (Status output))))]))"

definition ProposeL2OutputTxData :: "L2OutputSubmitter \<Rightarrow> OutputResponse \<Rightarrow> (error + bytes) outcome" where
  "ProposeL2OutputTxData l output = proposeL2OutputTxData (l2ooABI l) output"

text \<open>\<^verbatim>\<open>math.U256Bytes\<close> of a \<^verbatim>\<open>uint64\<close> is the number as 32 big-endian bytes.\<close>

definition proposeL2OutputDGFTxData ::
  "ABI option \<Rightarrow> u32 \<Rightarrow> OutputResponse \<Rightarrow> (error + bytes) outcome" where
  "proposeL2OutputDGFTxData abi gameType output =
     (case abi of
        None \<Rightarrow> Panics NilPointerDereference
      | Some a \<Rightarrow>
          Returns (Pack a ''create''
            [ArgUint32 gameType,
             ArgBytes32 (OutputRoot output),
             ArgBytes32 (ucast (L2_Number (BlockRef output)))]))"

definition ProposeL2OutputDGFTxData ::
  "L2OutputSubmitter \<Rightarrow> OutputResponse \<Rightarrow> trace \<Rightarrow> (error + bytes \<times> nat) outcome \<times> trace" where
  "ProposeL2OutputDGFTxData l output tr =
     (case dgfContract l of
        None \<Rightarrow> (Panics NilPointerDereference, tr)
      | Some c \<Rightarrow>
          (let gameType = DisputeGameType (Cfg (DriverSetup l)); tr1 = tr @ [EvInitBonds gameType] in
           case InitBonds c (length tr) gameType of
             Inl err \<Rightarrow> (Returns (Inl err), tr1)
           | Inr bond \<Rightarrow>
               (case proposeL2OutputDGFTxData (dgfABI l) gameType output of
                  Panics p \<Rightarrow> (Panics p, tr1)
                | Returns (Inl err) \<Rightarrow> (Returns (Inl err), tr1)
                | Returns (Inr data) \<Rightarrow> (Returns (Inr (data, bond)), tr1))))"

subsection \<open>Waiting for the L1 head, dispatch\<close>

text \<open>
  The loop of \<^verbatim>\<open>waitForL1Head\<close> may run for ever; the first argument of the loop
  bounds its iterations, and \<open>None\<close> says that the bound was reached with the loop
  still waiting.
\<close>

fun waitForL1Head_loop ::
  "nat \<Rightarrow> L2OutputSubmitter \<Rightarrow> u64 \<Rightarrow> u64 \<Rightarrow> trace \<Rightarrow> ((error + unit) \<times> trace) option" where
  "waitForL1Head_loop 0 l blockNum l1head tr =
     (if l1head \<le> blockNum then None else Some (Inr (), tr))"
| "waitForL1Head_loop (Suc fuel) l blockNum l1head tr =
     (if l1head \<le> blockNum
      then (case done_select (DriverSetup l) (length tr) of
              TickerFired \<Rightarrow>
                (let tr1 = tr @ [EvSelect TickerFired] in
                 case BlockNumber (Txmgr (DriverSetup l)) (length tr1) of
                   Inl err \<Rightarrow> Some (Inl err, tr1 @ [EvBlockNumber (Inl err)])
                 | Inr l1head' \<Rightarrow>
                     waitForL1Head_loop fuel l blockNum l1head' (tr1 @ [EvBlockNumber (Inr l1head')]))
            | DoneClosed \<Rightarrow> Some (Inl SubmitterDone, tr @ [EvSelect DoneClosed]))
      else Some (Inr (), tr))"

definition waitForL1Head ::
  "nat \<Rightarrow> L2OutputSubmitter \<Rightarrow> u64 \<Rightarrow> trace \<Rightarrow> ((error + unit) \<times> trace) option" where
  "waitForL1Head fuel l blockNum tr =
     (case BlockNumber (Txmgr (DriverSetup l)) (length tr) of
        Inl err \<Rightarrow> Some (Inl err, tr @ [EvBlockNumber (Inl err)])
      | Inr l1head \<Rightarrow> waitForL1Head_loop fuel l blockNum l1head (tr @ [EvBlockNumber (Inr l1head)]))"

text \<open>
  After a confirmed send the two branches on \<^verbatim>\<open>receipt.Status\<close> differ in the line
  they log only; both fall through to \<^verbatim>\<open>return nil\<close>.
\<close>

definition sendTransaction ::
  "nat \<Rightarrow> L2OutputSubmitter \<Rightarrow> OutputResponse \<Rightarrow> trace \<Rightarrow> ((error + unit) outcome \<times> trace) option" where
  "sendTransaction fuel l output tr =
     (case waitForL1Head fuel l (L1_Number (HeadL1 (Status output)) + 1) tr of
        None \<Rightarrow> None
      | Some (Inl err, tr1) \<Rightarrow> Some (Returns (Inl err), tr1)
      | Some (Inr _, tr1) \<Rightarrow>
          (if DisputeGameFactoryAddr (Cfg (DriverSetup l)) \<noteq> None
           then (case ProposeL2OutputDGFTxData l output tr1 of
                   (Panics p, tr2) \<Rightarrow> Some (Panics p, tr2)
                 | (Returns (Inl err), tr2) \<Rightarrow> Some (Returns (Inl err), tr2)
                 | (Returns (Inr (data, bond)), tr2) \<Rightarrow>
                     (let cand = \<lparr>TxData = data, To = DisputeGameFactoryAddr (Cfg (DriverSetup l)),
                                  GasLimit = 0, Value = Some bond\<rparr> in
                      case Send (Txmgr (DriverSetup l)) (length tr2) cand of
                        Inl err \<Rightarrow> Some (Returns (Inl err), tr2 @ [EvSend cand])
                      | Inr receipt \<Rightarrow>
                          (if ReceiptStatus receipt = ReceiptStatusFailed
                           then Some (Returns (Inr ()), tr2 @ [EvSend cand])
                           else Some (Returns (Inr ()), tr2 @ [EvSend cand]))))
           else (case ProposeL2OutputTxData l output of
                   Panics p \<Rightarrow> Some (Panics p, tr1)
                 | Returns (Inl err) \<Rightarrow> Some (Returns (Inl err), tr1)
                 | Returns (Inr data) \<Rightarrow>
                     (let cand = \<lparr>TxData = data, To = L2OutputOracleAddr (Cfg (DriverSetup l)),
                                  GasLimit = 0, Value = None\<rparr> in
                      case Send (Txmgr (DriverSetup l)) (length tr1) cand of
                        Inl err \<Rightarrow> Some (Returns (Inl err), tr1 @ [EvSend cand])
                      | Inr receipt \<Rightarrow>
                          (if ReceiptStatus receipt = ReceiptStatusFailed
                           then Some (Returns (Inr ()), tr1 @ [EvSend cand])
                           else Some (Returns (Inr ()), tr1 @ [EvSend cand]))))))"

definition proposeOutput ::
  "nat \<Rightarrow> L2OutputSubmitter \<Rightarrow> OutputResponse \<Rightarrow> trace \<Rightarrow> (unit outcome \<times> trace) option" where
  "proposeOutput fuel l output tr =
     (case sendTransaction fuel l output tr of
        None \<Rightarrow> None
      | Some (Panics p, tr1) \<Rightarrow> Some (Panics p, tr1)
      | Some (Returns (Inl err), tr1) \<Rightarrow> Some (Returns (), tr1)
      | Some (Returns (Inr _), tr1) \<Rightarrow>
          Some (Returns (), tr1 @ [EvRecordL2BlocksProposed (BlockRef output)]))"

subsection \<open>The worker loops\<close>

text \<open>
  The retry loop inside one tick of \<^verbatim>\<open>loopDGF\<close>: \<open>Some (None, tr)\<close> is the
  \<^verbatim>\<open>return\<close> taken when \<^verbatim>\<open>l.done\<close> is found closed, \<open>Some (Some output, tr)\<close> leaves
  the loop with an output, \<open>None\<close> is the loop still retrying when the bound is reached.
\<close>

fun loopDGF_retry ::
  "nat \<Rightarrow> L2OutputSubmitter \<Rightarrow> trace \<Rightarrow> (OutputResponse option \<times> trace) option" where
  "loopDGF_retry 0 l tr = None"
| "loopDGF_retry (Suc fuel) l tr =
     (if done_poll (DriverSetup l) (length tr)
      then Some (None, tr @ [EvPollDone True])
      else (case FetchDGFOutput l (tr @ [EvPollDone False]) of
              (Inl err, tr1) \<Rightarrow>
                loopDGF_retry fuel l (tr1 @ [EvSleep (OutputRetryInterval (Cfg (DriverSetup l)))])
            | (Inr output, tr1) \<Rightarrow> Some (Some output, tr1)))"

text \<open>
  One tick of \<^verbatim>\<open>loopDGF\<close> (the body of \<^verbatim>\<open>case <-ticker.C\<close>): \<open>Returns True\<close> when the
  body ends in \<^verbatim>\<open>return\<close>, \<open>Returns False\<close> when it falls through to the next
  iteration of the outer loop.
\<close>

definition loopDGF_tick ::
  "nat \<Rightarrow> L2OutputSubmitter \<Rightarrow> trace \<Rightarrow> (bool outcome \<times> trace) option" where
  "loopDGF_tick fuel l tr =
     (case loopDGF_retry fuel l tr of
        None \<Rightarrow> None
      | Some (None, tr1) \<Rightarrow> Some (Returns True, tr1)
      | Some (Some output, tr1) \<Rightarrow>
          (case proposeOutput fuel l output tr1 of
             None \<Rightarrow> None
           | Some (Panics p, tr2) \<Rightarrow> Some (Panics p, tr2)
           | Some (Returns _, tr2) \<Rightarrow> Some (Returns False, tr2)))"

fun loopDGF :: "nat \<Rightarrow> L2OutputSubmitter \<Rightarrow> trace \<Rightarrow> (unit outcome \<times> trace) option" where
  "loopDGF 0 l tr = None"
| "loopDGF (Suc fuel) l tr =
     (case done_select (DriverSetup l) (length tr) of
        DoneClosed \<Rightarrow> Some (Returns (), tr @ [EvSelect DoneClosed])
      | TickerFired \<Rightarrow>
          (case loopDGF_tick fuel l (tr @ [EvSelect TickerFired]) of
             None \<Rightarrow> None
           | Some (Panics p, tr1) \<Rightarrow> Some (Panics p, tr1)
           | Some (Returns True, tr1) \<Rightarrow> Some (Returns (), tr1)
           | Some (Returns False, tr1) \<Rightarrow> loopDGF fuel l tr1))"

definition loopL2OO_tick ::
  "nat \<Rightarrow> L2OutputSubmitter \<Rightarrow> trace \<Rightarrow> (bool outcome \<times> trace) option" where
  "loopL2OO_tick fuel l tr =
     (if done_poll (DriverSetup l) (length tr)
      then Some (Returns True, tr @ [EvPollDone True])
      else (case FetchL2OOOutput l (tr @ [EvPollDone False]) of
              (Inl err, tr1) \<Rightarrow> Some (Returns False, tr1)
            | (Inr (output, shouldPropose), tr1) \<Rightarrow>
                (if \<not> shouldPropose then Some (Returns False, tr1)
                 else (case output of
                         None \<Rightarrow> Some (Panics NilPointerDereference, tr1)
                       | Some out \<Rightarrow>
                           (case proposeOutput fuel l out tr1 of
                              None \<Rightarrow> None
                            | Some (Panics p, tr2) \<Rightarrow> Some (Panics p, tr2)
                            | Some (Returns _, tr2) \<Rightarrow> Some (Returns False, tr2))))))"

fun loopL2OO :: "nat \<Rightarrow> L2OutputSubmitter \<Rightarrow> trace \<Rightarrow> (unit outcome \<times> trace) option" where
  "loopL2OO 0 l tr = None"
| "loopL2OO (Suc fuel) l tr =
     (case done_select (DriverSetup l) (length tr) of
        DoneClosed \<Rightarrow> Some (Returns (), tr @ [EvSelect DoneClosed])
      | TickerFired \<Rightarrow>
          (case loopL2OO_tick fuel l (tr @ [EvSelect TickerFired]) of
             None \<Rightarrow> None
           | Some (Panics p, tr1) \<Rightarrow> Some (Panics p, tr1)
           | Some (Returns True, tr1) \<Rightarrow> Some (Returns (), tr1)
           | Some (Returns False, tr1) \<Rightarrow> loopL2OO fuel l tr1))"

definition waitNodeSync :: "L2OutputSubmitter \<Rightarrow> trace \<Rightarrow> error option \<times> trace" where
  "waitNodeSync l tr =
     (case BlockNumber (Txmgr (DriverSetup l)) (length tr) of
        Inl err \<Rightarrow> (Some (FailedToRetrieveL1BlockNumber err), tr @ [EvBlockNumber (Inl err)])
      | Inr l1head \<Rightarrow>
          (let tr1 = tr @ [EvBlockNumber (Inr l1head)] in
           case RollupProvider (DriverSetup l) (length tr1) of
             Inl err \<Rightarrow> (Some (FailedToGetRollupClient err), tr1 @ [EvRollupClient])
           | Inr rollupClient \<Rightarrow>
               (let tr2 = tr1 @ [EvRollupClient] in
                (dial_WaitRollupSync (DriverSetup l) (length tr2) l1head,
                 tr2 @ [EvWaitRollupSync l1head]))))"

text \<open>
  \<^verbatim>\<open>loop\<close>, the body of the worker goroutine; its deferred \<^verbatim>\<open>l.wg.Done()\<close> belongs to
  the lifecycle below.
\<close>

definition loop :: "nat \<Rightarrow> L2OutputSubmitter \<Rightarrow> trace \<Rightarrow> (unit outcome \<times> trace) option" where
  "loop fuel l tr =
     (case (if WaitNodeSync (Cfg (DriverSetup l)) then waitNodeSync l tr else (None, tr)) of
        (Some err, tr1) \<Rightarrow> Some (Returns (), tr1)
      | (None, tr1) \<Rightarrow>
          (if dgfContract l = None then loopL2OO fuel l tr1 else loopDGF fuel l tr1))"

subsection \<open>Construction\<close>

text \<open>
  Both constructors dereference their address, which the caller has checked. The deferred
  function of \<^verbatim>\<open>NewL2OutputSubmitter\<close> cancels the context when the result is an
  error, and recovers a panic: the function then returns its zero results, \<^verbatim>\<open>(nil, nil)\<close>.
\<close>

definition newL2OOSubmitter ::
  "DriverSetup \<Rightarrow> trace \<Rightarrow> (error + L2OutputSubmitter) outcome \<times> trace" where
  "newL2OOSubmitter s tr =
     (case L2OutputOracleAddr (Cfg s) of
        None \<Rightarrow> (Panics NilPointerDereference, tr)
      | Some addr \<Rightarrow>
          (let tr1 = tr @ [EvNewL2OutputOracleCaller addr] in
           case NewL2OutputOracleCaller (bindings s) (length tr) addr of
             Inl err \<Rightarrow> (Returns (Inl (FailedToCreateL2OO err)), tr1 @ [EvContextCancel])
           | Inr l2ooContract' \<Rightarrow>
               (let tr2 = tr1 @ [EvL2OOVersion] in
                case L2OO_Version l2ooContract' (length tr1) of
                  Inl err \<Rightarrow> (Returns (Inl err), tr2 @ [EvContextCancel])
                | Inr version \<Rightarrow>
                    (let tr3 = tr2 @ [EvGetAbi] in
                     case L2OutputOracleMetaData_GetAbi (bindings s) (length tr2) of
                       Inl err \<Rightarrow> (Returns (Inl err), tr3 @ [EvContextCancel])
                     | Inr parsed \<Rightarrow>
                         (Returns (Inr \<lparr>DriverSetup = s, wg = 0, done_closed = False,
                                        ctx_cancelled = False, running = False, spawned = 0,
                                        l2ooContract = Some l2ooContract', l2ooABI = Some parsed,
                                        dgfContract = None, dgfABI = None\<rparr>), tr3)))))"

definition newDGFSubmitter ::
  "DriverSetup \<Rightarrow> trace \<Rightarrow> (error + L2OutputSubmitter) outcome \<times> trace" where
  "newDGFSubmitter s tr =
     (case DisputeGameFactoryAddr (Cfg s) of
        None \<Rightarrow> (Panics NilPointerDereference, tr)
      | Some addr \<Rightarrow>
          (let tr1 = tr @ [EvNewDisputeGameFactoryCaller addr] in
           case NewDisputeGameFactoryCaller (bindings s) (length tr) addr of
             Inl err \<Rightarrow> (Returns (Inl (FailedToCreateDGF err)), tr1 @ [EvContextCancel])
           | Inr dgfCaller \<Rightarrow>
               (let tr2 = tr1 @ [EvDGFVersion] in
                case DGF_Version dgfCaller (length tr1) of
                  Inl err \<Rightarrow> (Returns (Inl err), tr2 @ [EvContextCancel])
                | Inr version \<Rightarrow>
                    (let tr3 = tr2 @ [EvGetAbi] in
                     case DisputeGameFactoryMetaData_GetAbi (bindings s) (length tr2) of
                       Inl err \<Rightarrow> (Returns (Inl err), tr3 @ [EvContextCancel])
                     | Inr parsed \<Rightarrow>
                         (Returns (Inr \<lparr>DriverSetup = s, wg = 0, done_closed = False,
                                        ctx_cancelled = False, running = False, spawned = 0,
                                        l2ooContract = None, l2ooABI = None,
                                        dgfContract = Some dgfCaller, dgfABI = Some parsed\<rparr>), tr3)))))"

definition deferred_cancel ::
  "(error + L2OutputSubmitter) outcome \<times> trace \<Rightarrow> (error + L2OutputSubmitter option) \<times> trace" where
  "deferred_cancel r =
     (case r of
        (Returns (Inl err), tr) \<Rightarrow> (Inl err, tr @ [EvContextCancel])
      | (Panics p, tr) \<Rightarrow> (Inr None, tr @ [EvContextCancel])
      | (Returns (Inr l), tr) \<Rightarrow> (Inr (Some l), tr))"

definition NewL2OutputSubmitter ::
  "DriverSetup \<Rightarrow> trace \<Rightarrow> (error + L2OutputSubmitter option) \<times> trace" where
  "NewL2OutputSubmitter s tr =
     deferred_cancel
       (if L2OutputOracleAddr (Cfg s) \<noteq> None then newL2OOSubmitter s tr
        else if DisputeGameFactoryAddr (Cfg s) \<noteq> None then newDGFSubmitter s tr
        else (Returns (Inl NeitherAddressProvided), tr))"

subsection \<open>Lifecycle\<close>

text \<open>
  \<^verbatim>\<open>StartL2OutputSubmitting\<close> and \<^verbatim>\<open>StopL2OutputSubmitting\<close> run under the mutex, so
  each is one step on the submitter. \<^verbatim>\<open>l.wg.Wait()\<close> returns once the counter is zero,
  that is, once every worker has run its deferred \<^verbatim>\<open>l.wg.Done()\<close>; \<open>workers_exit\<close>
  says whether the live workers do return from \<^verbatim>\<open>loop\<close>, and \<open>None\<close> is a wait that
  never ends. Closing a closed channel panics.
\<close>

definition StartL2OutputSubmitting :: "L2OutputSubmitter \<Rightarrow> (error + unit) \<times> L2OutputSubmitter" where
  "StartL2OutputSubmitting l =
     (if running l then (Inl AlreadyRunning, l)
      else (Inr (), l\<lparr>running := True, wg := wg l + 1, spawned := spawned l + 1\<rparr>))"

text \<open>The deferred \<^verbatim>\<open>l.wg.Done()\<close> of \<^verbatim>\<open>loop\<close>, run when a worker returns.\<close>

definition loop_returns :: "L2OutputSubmitter \<Rightarrow> L2OutputSubmitter" where
  "loop_returns l = l\<lparr>wg := wg l - 1\<rparr>"

definition wg_Wait :: "bool \<Rightarrow> L2OutputSubmitter \<Rightarrow> L2OutputSubmitter option" where
  "wg_Wait workers_exit l =
     (if wg l = 0 then Some l
      else if workers_exit then Some (l\<lparr>wg := 0\<rparr>)
      else None)"

definition StopL2OutputSubmitting ::
  "bool \<Rightarrow> L2OutputSubmitter \<Rightarrow> ((error + unit) outcome \<times> L2OutputSubmitter) option" where
  "StopL2OutputSubmitting workers_exit l =
     (if \<not> running l then Some (Returns (Inl ErrProposerNotRunning), l)
      else
        (let l1 = l\<lparr>running := False\<rparr>;
             l2 = l1\<lparr>ctx_cancelled := True\<rparr> in
         if done_closed l2 then Some (Panics CloseOfClosedChannel, l2)
         else
           (case wg_Wait workers_exit (l2\<lparr>done_closed := True\<rparr>) of
              None \<Rightarrow> None
            | Some l3 \<Rightarrow> Some (Returns (Inr ()), l3))))"

definition StopL2OutputSubmittingIfRunning ::
  "bool \<Rightarrow> L2OutputSubmitter \<Rightarrow> ((error + unit) outcome \<times> L2OutputSubmitter) option" where
  "StopL2OutputSubmittingIfRunning workers_exit l =
     (case StopL2OutputSubmitting workers_exit l of
        None \<Rightarrow> None
      | Some (Returns (Inl err), l') \<Rightarrow>
          (if err = ErrProposerNotRunning then Some (Returns (Inr ()), l')
           else Some (Returns (Inl err), l'))
      | Some (r, l') \<Rightarrow> Some (r, l'))"

text \<open>
  The first \<open>n\<close> fetch attempts of a tick started at trace \<open>tr\<close> fail, with
  \<^verbatim>\<open>l.done\<close> open at each check: the result is the trace after the \<open>n\<close>-th retry sleep,
  and \<open>None\<close> when the attempts go otherwise.
\<close>

fun dgf_fetch_fails :: "nat \<Rightarrow> L2OutputSubmitter \<Rightarrow> trace \<Rightarrow> trace option" where
  "dgf_fetch_fails 0 l tr = Some tr"
| "dgf_fetch_fails (Suc n) l tr =
     (if done_poll (DriverSetup l) (length tr) then None
      else (case FetchDGFOutput l (tr @ [EvPollDone False]) of
              (Inl err, tr1) \<Rightarrow>
                dgf_fetch_fails n l (tr1 @ [EvSleep (OutputRetryInterval (Cfg (DriverSetup l)))])
            | (Inr output, tr1) \<Rightarrow> None))"

subsection \<open>A concrete deployment\<close>

text \<open>
  Collaborators with fixed answers, used to run the driver on concrete inputs: the L2 node
  reports finalized block 100 and safe block 105, L1 head 60; the registry and the
  transaction manager are parameters.
\<close>

definition ex_status :: SyncStatus where
  "ex_status =
     \<lparr>CurrentL1 = \<lparr>L1_Hash = 5, L1_Number = 50\<rparr>,
      HeadL1 = \<lparr>L1_Hash = 6, L1_Number = 60\<rparr>,
      SafeL2 = \<lparr>L2_Hash = 15, L2_Number = 105, L2_Time = 0\<rparr>,
      FinalizedL2 = \<lparr>L2_Hash = 10, L2_Number = 100, L2_Time = 0\<rparr>\<rparr>"

definition ex_output :: "Bytes32 \<Rightarrow> u64 \<Rightarrow> OutputResponse" where
  "ex_output v n =
     \<lparr>Version = v, OutputRoot = 7,
      BlockRef = \<lparr>L2_Hash = 9, L2_Number = n, L2_Time = 0\<rparr>,
      Status = ex_status\<rparr>"

definition ex_rollup :: "(nat \<Rightarrow> u64 \<Rightarrow> error + OutputResponse) \<Rightarrow> RollupClient" where
  "ex_rollup oab = \<lparr>SyncStatus_call = (\<lambda>t. Inr ex_status), OutputAtBlock = oab\<rparr>"

definition ex_abi :: ABI where
  "ex_abi = \<lparr>Pack = (\<lambda>name args. Inr [])\<rparr>"

definition ex_registry :: "nat \<Rightarrow> L2OOContract" where
  "ex_registry next = \<lparr>L2OO_Version = (\<lambda>t. Inr ''1.0.0''), NextBlockNumber = (\<lambda>t. Inr next)\<rparr>"

definition ex_factory :: DisputeGameFactoryCaller where
  "ex_factory = \<lparr>DGF_Version = (\<lambda>t. Inr ''1.0.0''), InitBonds = (\<lambda>t g. Inr 8)\<rparr>"

definition ex_cfg :: "Address option \<Rightarrow> Address option \<Rightarrow> bool \<Rightarrow> ProposerConfig" where
  "ex_cfg l2oo dgf allow =
     \<lparr>L2OutputOracleAddr = l2oo, DisputeGameFactoryAddr = dgf, PollInterval = 6,
      NetworkTimeout = 10, AllowNonFinalized = allow, ProposalInterval = 3600,
      OutputRetryInterval = 12, DisputeGameType = 0, WaitNodeSync = False\<rparr>"

definition ex_setup ::
  "ProposerConfig \<Rightarrow> nat \<Rightarrow> (nat \<Rightarrow> u64 \<Rightarrow> error + OutputResponse) \<Rightarrow> (nat \<Rightarrow> error + u64) \<Rightarrow>
   (nat \<Rightarrow> TxCandidate \<Rightarrow> error + Receipt) \<Rightarrow> (nat \<Rightarrow> select_case) \<Rightarrow> DriverSetup" where
  "ex_setup cfg next oab heads send sel =
     \<lparr>Cfg = cfg,
      Txmgr = \<lparr>From = 1, BlockNumber = heads, Send = send\<rparr>,
      RollupProvider = (\<lambda>t. Inr (ex_rollup oab)),
      bindings = \<lparr>NewL2OutputOracleCaller = (\<lambda>t a. Inr (ex_registry next)),
                  L2OutputOracleMetaData_GetAbi = (\<lambda>t. Inr ex_abi),
                  NewDisputeGameFactoryCaller = (\<lambda>t a. Inr ex_factory),
                  DisputeGameFactoryMetaData_GetAbi = (\<lambda>t. Inr ex_abi)\<rparr>,
      dial_WaitRollupSync = (\<lambda>t h. None),
      done_select = sel,
      done_poll = (\<lambda>t. False)\<rparr>"

definition ex_l2oo :: "DriverSetup \<Rightarrow> nat \<Rightarrow> L2OutputSubmitter" where
  "ex_l2oo s next =
     \<lparr>DriverSetup = s, wg = 0, done_closed = False, ctx_cancelled = False, running = False,
      spawned = 0, l2ooContract = Some (ex_registry next), l2ooABI = Some ex_abi,
      dgfContract = None, dgfABI = None\<rparr>"

definition ex_dgf :: "DriverSetup \<Rightarrow> L2OutputSubmitter" where
  "ex_dgf s =
     \<lparr>DriverSetup = s, wg = 0, done_closed = False, ctx_cancelled = False, running = False,
      spawned = 0, l2ooContract = None, l2ooABI = None,
      dgfContract = Some ex_factory, dgfABI = Some ex_abi\<rparr>"

definition ex_ok_output :: "nat \<Rightarrow> u64 \<Rightarrow> error + OutputResponse" where
  "ex_ok_output t b = Inr (ex_output 0 b)"

definition ex_send_ok :: "nat \<Rightarrow> TxCandidate \<Rightarrow> error + Receipt" where
  "ex_send_ok t c = Inr \<lparr>ReceiptStatus = 1, TxHash = 3\<rparr>"

definition ex_send_reverted :: "nat \<Rightarrow> TxCandidate \<Rightarrow> error + Receipt" where
  "ex_send_reverted t c = Inr \<lparr>ReceiptStatus = 0, TxHash = 3\<rparr>"

definition ex_send_fails :: "nat \<Rightarrow> TxCandidate \<Rightarrow> error + Receipt" where
  "ex_send_fails t c = Inl (External ''send failed'')"

definition ex_registry_setup :: "bool \<Rightarrow> nat \<Rightarrow> DriverSetup" where
  "ex_registry_setup allow next =
     ex_setup (ex_cfg (Some 11) None allow) next ex_ok_output (\<lambda>t. Inr 62) ex_send_ok
       (\<lambda>t. TickerFired)"

definition ex_registry_submitter :: "bool \<Rightarrow> nat \<Rightarrow> L2OutputSubmitter" where
  "ex_registry_submitter allow next = ex_l2oo (ex_registry_setup allow next) next"

definition ex_lagging_status :: SyncStatus where
  "ex_lagging_status =
     ex_status\<lparr>SafeL2 := \<lparr>L2_Hash = 14, L2_Number = 95, L2_Time = 0\<rparr>,
               FinalizedL2 := \<lparr>L2_Hash = 13, L2_Number = 90, L2_Time = 0\<rparr>\<rparr>"

definition ex_lagging_output :: "nat \<Rightarrow> u64 \<Rightarrow> error + OutputResponse" where
  "ex_lagging_output t b = Inr ((ex_output 0 b)\<lparr>Status := ex_lagging_status\<rparr>)"

definition ex_fetcher ::
  "bool \<Rightarrow> nat \<Rightarrow> (nat \<Rightarrow> u64 \<Rightarrow> error + OutputResponse) \<Rightarrow> L2OutputSubmitter" where
  "ex_fetcher allow next oab =
     ex_l2oo (ex_setup (ex_cfg (Some 11) None allow) next oab (\<lambda>t. Inr 62) ex_send_ok
       (\<lambda>t. TickerFired)) next"

definition ex_head_setup ::
  "(nat \<Rightarrow> error + u64) \<Rightarrow> (nat \<Rightarrow> TxCandidate \<Rightarrow> error + Receipt) \<Rightarrow> (nat \<Rightarrow> select_case) \<Rightarrow>
   L2OutputSubmitter" where
  "ex_head_setup heads send sel =
     ex_l2oo (ex_setup (ex_cfg (Some 11) None False) 100 ex_ok_output heads send sel) 100"

definition ex_flaky_factory :: L2OutputSubmitter where
  "ex_flaky_factory =
     ex_dgf (ex_setup (ex_cfg None (Some 12) False) 0
       (\<lambda>t b. if t < 12 then Inl (External ''unavailable'') else Inr (ex_output 0 b))
       (\<lambda>t. Inr 62) ex_send_ok (\<lambda>t. TickerFired))"

definition ex_flaky_trace :: trace where
  "ex_flaky_trace =
     [EvPollDone False, EvRollupClient, EvSyncStatus, EvRollupClient, EvOutputAtBlock 100, EvSleep 12,
      EvPollDone False, EvRollupClient, EvSyncStatus, EvRollupClient, EvOutputAtBlock 100, EvSleep 12,
      EvPollDone False, EvRollupClient, EvSyncStatus, EvRollupClient, EvOutputAtBlock 100]"

definition ex_both_setup :: DriverSetup where
  "ex_both_setup =
     ex_setup (ex_cfg (Some 11) (Some 12) False) 100 ex_ok_output (\<lambda>t. Inr 62) ex_send_ok
       (\<lambda>t. TickerFired)"

definition ex_fresh :: L2OutputSubmitter where
  "ex_fresh = ex_registry_submitter False 100"

definition ex_started :: L2OutputSubmitter where
  "ex_started = ex_fresh\<lparr>running := True, wg := 1, spawned := 1\<rparr>"

definition ex_stopped :: L2OutputSubmitter where
  "ex_stopped = ex_fresh\<lparr>running := False, wg := 0, spawned := 1, done_closed := True,
                         ctx_cancelled := True\<rparr>"

definition ex_restarted :: L2OutputSubmitter where
  "ex_restarted = ex_stopped\<lparr>running := True, wg := 1, spawned := 2\<rparr>"

section \<open>Properties\<close>

lemmas ex_defs =
  ex_registry_submitter_def ex_fetcher_def ex_l2oo_def ex_registry_setup_def ex_setup_def
  ex_cfg_def ex_rollup_def ex_status_def ex_registry_def ex_ok_output_def ex_output_def

lemmas fetch_defs =
  FetchCurrentBlockNumber_def FetchOutput_def supportedL2OutputVersion_def

subsection \<open>Output fetcher\<close>


text \<open>
  Claim C8. For every sync status that the rollup client returns,
  \<^verbatim>\<open>FetchCurrentBlockNumber\<close> returns the number of the safe L2 head when
  \<^verbatim>\<open>AllowNonFinalized\<close> is set and the number of the finalized L2 head otherwise.
\<close>

theorem FetchCurrentBlockNumber_selects_head:
  assumes "RollupProvider (DriverSetup l) (length tr) = Inr rollupClient"
    and "SyncStatus_call rollupClient (Suc (length tr)) = Inr status"
  shows "FetchCurrentBlockNumber l tr =
           (Inr (if AllowNonFinalized (Cfg (DriverSetup l))
                 then L2_Number (SafeL2 status) else L2_Number (FinalizedL2 status)),
            tr @ [EvRollupClient, EvSyncStatus])"
  using assms by (simp add: FetchCurrentBlockNumber_def)

theorem FetchCurrentBlockNumber_selects_head_witness:
  "FetchCurrentBlockNumber (ex_registry_submitter True 100) []
     = (Inr 105, [EvRollupClient, EvSyncStatus])
   \<and> FetchCurrentBlockNumber (ex_registry_submitter False 100) []
     = (Inr 100, [EvRollupClient, EvSyncStatus])"
  using FetchCurrentBlockNumber_selects_head
          [of "ex_registry_submitter True 100" "[]" "ex_rollup ex_ok_output" ex_status]
        FetchCurrentBlockNumber_selects_head
          [of "ex_registry_submitter False 100" "[]" "ex_rollup ex_ok_output" ex_status]
  by (simp add: ex_defs)

text \<open>
  Claim C4. \<^verbatim>\<open>FetchOutput\<close> returns an output only if its version is the supported
  version and its block number is the requested one, and then it is the output the
  rollup client answered with. The version is checked first: an answer of another
  version fails with the unsupported-version error, an answer of the supported version
  for another block fails with the block-mismatch error, and an answer that passes both
  checks is returned.
\<close>

theorem FetchOutput_validates:
  "(\<forall>output tr'. FetchOutput l block tr = (Inr output, tr') \<longrightarrow>
       Version output = supportedL2OutputVersion \<and> L2_Number (BlockRef output) = block
       \<and> (\<exists>rollupClient. RollupProvider (DriverSetup l) (length tr) = Inr rollupClient
             \<and> OutputAtBlock rollupClient (Suc (length tr)) block = Inr output))
   \<and> (\<forall>rollupClient output.
         RollupProvider (DriverSetup l) (length tr) = Inr rollupClient
         \<and> OutputAtBlock rollupClient (Suc (length tr)) block = Inr output \<longrightarrow>
           (Version output \<noteq> supportedL2OutputVersion \<longrightarrow>
              fst (FetchOutput l block tr)
                = Inl (UnsupportedVersion (Version output) supportedL2OutputVersion))
         \<and> (Version output = supportedL2OutputVersion \<and> L2_Number (BlockRef output) \<noteq> block \<longrightarrow>
              fst (FetchOutput l block tr)
                = Inl (BlockMismatch (L2_Number (BlockRef output)) block))
         \<and> (Version output = supportedL2OutputVersion \<and> L2_Number (BlockRef output) = block \<longrightarrow>
              fst (FetchOutput l block tr) = Inr output))"
proof (intro conjI allI impI)
  fix output' tr'
  assume "FetchOutput l block tr = (Inr output', tr')"
  then show "Version output' = supportedL2OutputVersion" "L2_Number (BlockRef output') = block"
    "\<exists>rollupClient. RollupProvider (DriverSetup l) (length tr) = Inr rollupClient
       \<and> OutputAtBlock rollupClient (Suc (length tr)) block = Inr output'"
    by (auto simp: FetchOutput_def Let_def split: sum.splits if_splits)
next
  fix rollupClient output'
  assume answer: "RollupProvider (DriverSetup l) (length tr) = Inr rollupClient
      \<and> OutputAtBlock rollupClient (Suc (length tr)) block = Inr output'"
  { assume "Version output' \<noteq> supportedL2OutputVersion"
    with answer show "fst (FetchOutput l block tr)
        = Inl (UnsupportedVersion (Version output') supportedL2OutputVersion)"
      by (simp add: FetchOutput_def) }
  { assume "Version output' = supportedL2OutputVersion \<and> L2_Number (BlockRef output') \<noteq> block"
    with answer show "fst (FetchOutput l block tr)
        = Inl (BlockMismatch (L2_Number (BlockRef output')) block)"
      by (simp add: FetchOutput_def) }
  { assume "Version output' = supportedL2OutputVersion \<and> L2_Number (BlockRef output') = block"
    with answer show "fst (FetchOutput l block tr) = Inr output'"
      by (simp add: FetchOutput_def) }
qed

theorem FetchOutput_validates_witness:
  "FetchOutput (ex_fetcher False 100 ex_ok_output) 100 []
     = (Inr (ex_output 0 100), [EvRollupClient, EvOutputAtBlock 100])
   \<and> Version (ex_output 0 100) = supportedL2OutputVersion
   \<and> L2_Number (BlockRef (ex_output 0 100)) = 100
   \<and> fst (FetchOutput (ex_fetcher False 100 (\<lambda>t b. Inr (ex_output 1 b))) 100 [])
     = Inl (UnsupportedVersion 1 supportedL2OutputVersion)
   \<and> fst (FetchOutput (ex_fetcher False 100 (\<lambda>t b. Inr (ex_output 0 99))) 100 [])
     = Inl (BlockMismatch 99 100)"
proof -
  have ok: "Version (ex_output 0 100) = supportedL2OutputVersion
      \<and> L2_Number (BlockRef (ex_output 0 100)) = 100"
    by (simp add: ex_output_def supportedL2OutputVersion_def)
  have a: "fst (FetchOutput (ex_fetcher False 100 ex_ok_output) 100 []) = Inr (ex_output 0 100)"
    using FetchOutput_validates [of "ex_fetcher False 100 ex_ok_output" 100 "[]"] ok
    by (simp add: ex_fetcher_def ex_l2oo_def ex_setup_def ex_rollup_def ex_ok_output_def)
  have b: "fst (FetchOutput (ex_fetcher False 100 (\<lambda>t b. Inr (ex_output 1 b))) 100 [])
      = Inl (UnsupportedVersion 1 supportedL2OutputVersion)"
    using FetchOutput_validates [of "ex_fetcher False 100 (\<lambda>t b. Inr (ex_output 1 b))" 100 "[]"]
    by (simp add: ex_fetcher_def ex_l2oo_def ex_setup_def ex_rollup_def ex_output_def
        supportedL2OutputVersion_def)
  have c: "fst (FetchOutput (ex_fetcher False 100 (\<lambda>t b. Inr (ex_output 0 99))) 100 [])
      = Inl (BlockMismatch 99 100)"
    using FetchOutput_validates [of "ex_fetcher False 100 (\<lambda>t b. Inr (ex_output 0 99))" 100 "[]"]
    by (simp add: ex_fetcher_def ex_l2oo_def ex_setup_def ex_rollup_def ex_output_def
        supportedL2OutputVersion_def)
  have d: "snd (FetchOutput (ex_fetcher False 100 ex_ok_output) 100 [])
      = [EvRollupClient, EvOutputAtBlock 100]"
    by (simp add: fetch_defs ex_defs)
  from a d have "FetchOutput (ex_fetcher False 100 ex_ok_output) 100 []
      = (Inr (ex_output 0 100), [EvRollupClient, EvOutputAtBlock 100])"
    by (simp add: prod_eq_iff)
  with ok b c show ?thesis by simp
qed

subsection \<open>Proposal decision in registry mode\<close>

text \<open>
  Claim C1. In registry mode, once the output for the next block has been fetched,
  \<^verbatim>\<open>FetchL2OOOutput\<close> returns that output and no error, with \<^verbatim>\<open>shouldPropose\<close> true
  exactly when the output's block number is at most the finalized L2 number of the
  output's status, or \<^verbatim>\<open>AllowNonFinalized\<close> is set and it is at most the safe L2 number;
  in every other case the flag is false.
\<close>

theorem FetchL2OOOutput_eligibility:
  assumes "l2ooContract l = Some c"
    and "NextBlockNumber c (length tr) = Inr nextBig"
    and "FetchCurrentBlockNumber l (tr @ [EvNextBlockNumber]) = (Inr cur, tr2)"
    and "\<not> cur < word_of_nat nextBig"
    and "FetchOutput l (word_of_nat nextBig) tr2 = (Inr output, tr3)"
  shows "FetchL2OOOutput l tr =
           (Inr (Some output,
                 L2_Number (BlockRef output) \<le> L2_Number (FinalizedL2 (Status output))
                 \<or> (AllowNonFinalized (Cfg (DriverSetup l))
                      \<and> L2_Number (BlockRef output) \<le> L2_Number (SafeL2 (Status output)))),
            tr3)"
  using assms by (auto simp: FetchL2OOOutput_def Let_def not_le)

theorem FetchL2OOOutput_eligibility_witness:
  "FetchL2OOOutput (ex_registry_submitter False 100) []
     = (Inr (Some (ex_output 0 100), True),
        [EvNextBlockNumber, EvRollupClient, EvSyncStatus, EvRollupClient, EvOutputAtBlock 100])
   \<and> FetchL2OOOutput (ex_registry_submitter True 105) []
     = (Inr (Some (ex_output 0 105), True),
        [EvNextBlockNumber, EvRollupClient, EvSyncStatus, EvRollupClient, EvOutputAtBlock 105])
   \<and> FetchL2OOOutput (ex_fetcher False 100 ex_lagging_output) []
     = (Inr (Some ((ex_output 0 100)\<lparr>Status := ex_lagging_status\<rparr>), False),
        [EvNextBlockNumber, EvRollupClient, EvSyncStatus, EvRollupClient, EvOutputAtBlock 100])"
proof -
  let ?tr = "[EvNextBlockNumber, EvRollupClient, EvSyncStatus]"
  have a: "FetchL2OOOutput (ex_registry_submitter False 100) []
     = (Inr (Some (ex_output 0 100), True), ?tr @ [EvRollupClient, EvOutputAtBlock 100])"
    using FetchL2OOOutput_eligibility [of "ex_registry_submitter False 100" "ex_registry 100" "[]"
        100 100 ?tr "ex_output 0 100" "?tr @ [EvRollupClient, EvOutputAtBlock 100]"]
    by (simp add: fetch_defs ex_defs)
  have b: "FetchL2OOOutput (ex_registry_submitter True 105) []
     = (Inr (Some (ex_output 0 105), True), ?tr @ [EvRollupClient, EvOutputAtBlock 105])"
    using FetchL2OOOutput_eligibility [of "ex_registry_submitter True 105" "ex_registry 105" "[]"
        105 105 ?tr "ex_output 0 105" "?tr @ [EvRollupClient, EvOutputAtBlock 105]"]
    by (simp add: fetch_defs ex_defs)
  have c: "FetchL2OOOutput (ex_fetcher False 100 ex_lagging_output) []
     = (Inr (Some ((ex_output 0 100)\<lparr>Status := ex_lagging_status\<rparr>), False),
        ?tr @ [EvRollupClient, EvOutputAtBlock 100])"
    using FetchL2OOOutput_eligibility [of "ex_fetcher False 100 ex_lagging_output" "ex_registry 100"
        "[]" 100 100 ?tr "(ex_output 0 100)\<lparr>Status := ex_lagging_status\<rparr>"
        "?tr @ [EvRollupClient, EvOutputAtBlock 100]"]
    by (simp add: fetch_defs ex_defs ex_lagging_output_def ex_lagging_status_def)
  from a b c show ?thesis by simp
qed



subsection \<open>Construction\<close>

text \<open>
  Claim C9. With neither the registry address nor the factory address configured,
  \<^verbatim>\<open>NewL2OutputSubmitter\<close> fails with the configuration error; the only thing it does
  besides is to cancel the context it created: no contract is connected to and no version
  is queried.
\<close>

theorem NewL2OutputSubmitter_neither_address:
  assumes "L2OutputOracleAddr (Cfg s) = None"
    and "DisputeGameFactoryAddr (Cfg s) = None"
  shows "NewL2OutputSubmitter s tr = (Inl NeitherAddressProvided, tr @ [EvContextCancel])"
  using assms by (simp add: NewL2OutputSubmitter_def deferred_cancel_def)

theorem NewL2OutputSubmitter_neither_address_witness:
  "NewL2OutputSubmitter
     (ex_setup (ex_cfg None None False) 100 ex_ok_output (\<lambda>t. Inr 62) ex_send_ok (\<lambda>t. TickerFired)) []
   = (Inl NeitherAddressProvided, [EvContextCancel])"
  using NewL2OutputSubmitter_neither_address
    [of "ex_setup (ex_cfg None None False) 100 ex_ok_output (\<lambda>t. Inr 62) ex_send_ok (\<lambda>t. TickerFired)" "[]"]
  by (simp add: ex_setup_def ex_cfg_def)

subsection \<open>Waiting for the L1 head and dispatch\<close>




lemma waitForL1Head_loop_no_metric:
  "waitForL1Head_loop fuel l blockNum l1head tr = Some (r, tr') \<Longrightarrow>
     \<exists>ext. tr' = tr @ ext \<and> (\<forall>b. EvRecordL2BlocksProposed b \<notin> set ext)
        \<and> (\<forall>c. EvSend c \<notin> set ext)"
proof (induction fuel arbitrary: l1head tr)
  case 0
  then show ?case by (simp split: if_splits)
next
  case (Suc fuel)
  show ?case
  proof (cases "l1head \<le> blockNum")
    case False
    with Suc.prems show ?thesis by simp
  next
    case True
    show ?thesis
    proof (cases "done_select (DriverSetup l) (length tr)")
      case DoneClosed
      with True Suc.prems have "tr' = tr @ [EvSelect DoneClosed]" by auto
      then show ?thesis by simp
    next
      case TickerFired
      show ?thesis
      proof (cases "BlockNumber (Txmgr (DriverSetup l)) (Suc (length tr))")
        case (Inl err)
        with True TickerFired Suc.prems
        have "tr' = tr @ [EvSelect TickerFired, EvBlockNumber (Inl err)]" by auto
        then show ?thesis by simp
      next
        case (Inr h1)
        with True TickerFired Suc.prems
        have "waitForL1Head_loop fuel l blockNum h1
                ((tr @ [EvSelect TickerFired]) @ [EvBlockNumber (Inr h1)]) = Some (r, tr')"
          by (simp add: Let_def)
        from Suc.IH [OF this] obtain ext where
          "tr' = ((tr @ [EvSelect TickerFired]) @ [EvBlockNumber (Inr h1)]) @ ext"
          and "\<forall>b. EvRecordL2BlocksProposed b \<notin> set ext" and "\<forall>c. EvSend c \<notin> set ext"
          by blast
        then have "tr' = tr @ ([EvSelect TickerFired, EvBlockNumber (Inr h1)] @ ext)
            \<and> (\<forall>b. EvRecordL2BlocksProposed b \<notin> set ([EvSelect TickerFired, EvBlockNumber (Inr h1)] @ ext))
            \<and> (\<forall>c. EvSend c \<notin> set ([EvSelect TickerFired, EvBlockNumber (Inr h1)] @ ext))"
          by simp
        then show ?thesis by blast
      qed
    qed
  qed
qed

lemma waitForL1Head_no_metric:
  assumes "waitForL1Head fuel l blockNum tr = Some (r, tr')"
  shows "\<exists>ext. tr' = tr @ ext \<and> (\<forall>b. EvRecordL2BlocksProposed b \<notin> set ext)
           \<and> (\<forall>c. EvSend c \<notin> set ext)"
proof (cases "BlockNumber (Txmgr (DriverSetup l)) (length tr)")
  case (Inl err)
  with assms have "tr' = tr @ [EvBlockNumber (Inl err)]" by (simp add: waitForL1Head_def)
  then show ?thesis by simp
next
  case (Inr h0)
  with assms have "waitForL1Head_loop fuel l blockNum h0 (tr @ [EvBlockNumber (Inr h0)]) = Some (r, tr')"
    by (simp add: waitForL1Head_def)
  from waitForL1Head_loop_no_metric [OF this] obtain ext where
    "tr' = (tr @ [EvBlockNumber (Inr h0)]) @ ext"
    and "\<forall>b. EvRecordL2BlocksProposed b \<notin> set ext" and "\<forall>c. EvSend c \<notin> set ext"
    by blast
  then have "tr' = tr @ (EvBlockNumber (Inr h0) # ext)
      \<and> (\<forall>b. EvRecordL2BlocksProposed b \<notin> set (EvBlockNumber (Inr h0) # ext))
      \<and> (\<forall>c. EvSend c \<notin> set (EvBlockNumber (Inr h0) # ext))"
    by simp
  then show ?thesis by blast
qed

lemma sendTransaction_no_metric:
  assumes "sendTransaction fuel l output tr = Some (r, tr')"
  shows "\<exists>ext. tr' = tr @ ext \<and> (\<forall>b. EvRecordL2BlocksProposed b \<notin> set ext)"
proof -
  from assms obtain w tr1 where
    w: "waitForL1Head fuel l (L1_Number (HeadL1 (Status output)) + 1) tr = Some (w, tr1)"
    by (auto simp: sendTransaction_def split: option.splits)
  from waitForL1Head_no_metric [OF w] obtain ext where
    ext: "tr1 = tr @ ext" "\<forall>b. EvRecordL2BlocksProposed b \<notin> set ext"
    by blast
  from assms w have "tr' = tr1 \<or> (\<exists>c. tr' = tr1 @ [EvSend c]) \<or> (\<exists>g. tr' = tr1 @ [EvInitBonds g])
      \<or> (\<exists>g c. tr' = tr1 @ [EvInitBonds g, EvSend c])"
    by (auto simp: sendTransaction_def ProposeL2OutputDGFTxData_def Let_def
        split: sum.splits outcome.splits option.splits if_splits prod.splits)
  with ext show ?thesis by auto
qed



lemma sendTransaction_wait_failed:
  "waitForL1Head fuel l (L1_Number (HeadL1 (Status output)) + 1) tr = Some (Inl err, tr1)
     \<Longrightarrow> sendTransaction fuel l output tr = Some (Returns (Inl err), tr1)"
  by (simp add: sendTransaction_def)




lemmas run_defs =
  sendTransaction_def waitForL1Head_def ProposeL2OutputTxData_def proposeL2OutputTxData_def
  ex_head_setup_def ex_l2oo_def ex_setup_def ex_cfg_def ex_output_def ex_status_def ex_abi_def
  ex_send_ok_def ReceiptStatusFailed_def



lemma sendTransaction_registry_send:
  assumes "waitForL1Head fuel l (L1_Number (HeadL1 (Status output)) + 1) tr = Some (Inr (), tr1)"
    and "DisputeGameFactoryAddr (Cfg (DriverSetup l)) = None"
    and "ProposeL2OutputTxData l output = Returns (Inr data)"
  shows "sendTransaction fuel l output tr =
           (case Send (Txmgr (DriverSetup l)) (length tr1)
                   \<lparr>TxData = data, To = L2OutputOracleAddr (Cfg (DriverSetup l)), GasLimit = 0, Value = None\<rparr> of
              Inl err \<Rightarrow> Some (Returns (Inl err), tr1 @ [EvSend \<lparr>TxData = data, To = L2OutputOracleAddr (Cfg (DriverSetup l)), GasLimit = 0, Value = None\<rparr>])
            | Inr receipt \<Rightarrow> Some (Returns (Inr ()), tr1 @ [EvSend \<lparr>TxData = data, To = L2OutputOracleAddr (Cfg (DriverSetup l)), GasLimit = 0, Value = None\<rparr>]))"
  using assms by (simp add: sendTransaction_def Let_def split: sum.splits)

lemma sendTransaction_factory_send:
  assumes "waitForL1Head fuel l (L1_Number (HeadL1 (Status output)) + 1) tr = Some (Inr (), tr1)"
    and "DisputeGameFactoryAddr (Cfg (DriverSetup l)) \<noteq> None"
    and "ProposeL2OutputDGFTxData l output tr1 = (Returns (Inr (data, bond)), tr2)"
  shows "sendTransaction fuel l output tr =
           (case Send (Txmgr (DriverSetup l)) (length tr2)
                   \<lparr>TxData = data, To = DisputeGameFactoryAddr (Cfg (DriverSetup l)), GasLimit = 0, Value = Some bond\<rparr> of
              Inl err \<Rightarrow> Some (Returns (Inl err), tr2 @ [EvSend \<lparr>TxData = data, To = DisputeGameFactoryAddr (Cfg (DriverSetup l)), GasLimit = 0, Value = Some bond\<rparr>])
            | Inr receipt \<Rightarrow> Some (Returns (Inr ()), tr2 @ [EvSend \<lparr>TxData = data, To = DisputeGameFactoryAddr (Cfg (DriverSetup l)), GasLimit = 0, Value = Some bond\<rparr>]))"
  using assms by (simp add: sendTransaction_def Let_def split: sum.splits)

text \<open>
  Claim C10. \<^verbatim>\<open>sendTransaction\<close> itself never records the metric, and
  \<^verbatim>\<open>proposeOutput\<close> records it (once, for the output's block) exactly when
  \<^verbatim>\<open>sendTransaction\<close> returns without error. In particular it is recorded when the
  confirmed receipt has the reverted status, in either mode, and it is not recorded when
  the send fails or the wait for the L1 head fails.
\<close>

theorem proposeOutput_records_metric:
  "(sendTransaction fuel l output tr = None \<longrightarrow> proposeOutput fuel l output tr = None)
   \<and> (\<forall>r tr1. sendTransaction fuel l output tr = Some (r, tr1) \<longrightarrow>
        (\<exists>ext. tr1 = tr @ ext \<and> (\<forall>b. EvRecordL2BlocksProposed b \<notin> set ext))
        \<and> (r = Returns (Inr ()) \<longrightarrow>
              proposeOutput fuel l output tr
                = Some (Returns (), tr1 @ [EvRecordL2BlocksProposed (BlockRef output)]))
        \<and> (\<forall>err. r = Returns (Inl err) \<longrightarrow> proposeOutput fuel l output tr = Some (Returns (), tr1))
        \<and> (\<forall>p. r = Panics p \<longrightarrow> proposeOutput fuel l output tr = Some (Panics p, tr1)))
   \<and> (\<forall>err tr1. waitForL1Head fuel l (L1_Number (HeadL1 (Status output)) + 1) tr = Some (Inl err, tr1) \<longrightarrow>
        proposeOutput fuel l output tr = Some (Returns (), tr1))
   \<and> (\<forall>tr1 data cand.
        waitForL1Head fuel l (L1_Number (HeadL1 (Status output)) + 1) tr = Some (Inr (), tr1)
        \<and> DisputeGameFactoryAddr (Cfg (DriverSetup l)) = None
        \<and> ProposeL2OutputTxData l output = Returns (Inr data)
        \<and> cand = \<lparr>TxData = data, To = L2OutputOracleAddr (Cfg (DriverSetup l)), GasLimit = 0, Value = None\<rparr> \<longrightarrow>
          (\<forall>receipt. Send (Txmgr (DriverSetup l)) (length tr1) cand = Inr receipt
              \<and> ReceiptStatus receipt = ReceiptStatusFailed \<longrightarrow>
             proposeOutput fuel l output tr
               = Some (Returns (), tr1 @ [EvSend cand, EvRecordL2BlocksProposed (BlockRef output)]))
        \<and> (\<forall>receipt. Send (Txmgr (DriverSetup l)) (length tr1) cand = Inr receipt
              \<and> ReceiptStatus receipt \<noteq> ReceiptStatusFailed \<longrightarrow>
             proposeOutput fuel l output tr
               = Some (Returns (), tr1 @ [EvSend cand, EvRecordL2BlocksProposed (BlockRef output)]))
        \<and> (\<forall>err. Send (Txmgr (DriverSetup l)) (length tr1) cand = Inl err \<longrightarrow>
             proposeOutput fuel l output tr = Some (Returns (), tr1 @ [EvSend cand])))
   \<and> (\<forall>tr1 tr2 data bond cand.
        waitForL1Head fuel l (L1_Number (HeadL1 (Status output)) + 1) tr = Some (Inr (), tr1)
        \<and> DisputeGameFactoryAddr (Cfg (DriverSetup l)) \<noteq> None
        \<and> ProposeL2OutputDGFTxData l output tr1 = (Returns (Inr (data, bond)), tr2)
        \<and> cand = \<lparr>TxData = data, To = DisputeGameFactoryAddr (Cfg (DriverSetup l)), GasLimit = 0, Value = Some bond\<rparr> \<longrightarrow>
          (\<forall>receipt. Send (Txmgr (DriverSetup l)) (length tr2) cand = Inr receipt
              \<and> ReceiptStatus receipt = ReceiptStatusFailed \<longrightarrow>
             proposeOutput fuel l output tr
               = Some (Returns (), tr2 @ [EvSend cand, EvRecordL2BlocksProposed (BlockRef output)]))
        \<and> (\<forall>receipt. Send (Txmgr (DriverSetup l)) (length tr2) cand = Inr receipt
              \<and> ReceiptStatus receipt \<noteq> ReceiptStatusFailed \<longrightarrow>
             proposeOutput fuel l output tr
               = Some (Returns (), tr2 @ [EvSend cand, EvRecordL2BlocksProposed (BlockRef output)]))
        \<and> (\<forall>err. Send (Txmgr (DriverSetup l)) (length tr2) cand = Inl err \<longrightarrow>
             proposeOutput fuel l output tr = Some (Returns (), tr2 @ [EvSend cand])))"
proof (intro conjI allI impI)
  assume "sendTransaction fuel l output tr = None"
  then show "proposeOutput fuel l output tr = None" by (simp add: proposeOutput_def)
next
  fix r tr1
  assume s: "sendTransaction fuel l output tr = Some (r, tr1)"
  then show "\<exists>ext. tr1 = tr @ ext \<and> (\<forall>b. EvRecordL2BlocksProposed b \<notin> set ext)"
    by (rule sendTransaction_no_metric)
  { assume "r = Returns (Inr ())"
    with s show "proposeOutput fuel l output tr
        = Some (Returns (), tr1 @ [EvRecordL2BlocksProposed (BlockRef output)])"
      by (simp add: proposeOutput_def) }
  { fix err assume "r = Returns (Inl err)"
    with s show "proposeOutput fuel l output tr = Some (Returns (), tr1)"
      by (simp add: proposeOutput_def) }
  { fix p assume "r = Panics p"
    with s show "proposeOutput fuel l output tr = Some (Panics p, tr1)"
      by (simp add: proposeOutput_def) }
next
  fix err tr1
  assume "waitForL1Head fuel l (L1_Number (HeadL1 (Status output)) + 1) tr = Some (Inl err, tr1)"
  then show "proposeOutput fuel l output tr = Some (Returns (), tr1)"
    by (simp add: proposeOutput_def sendTransaction_wait_failed)
next
  fix tr1 data cand
  assume h: "waitForL1Head fuel l (L1_Number (HeadL1 (Status output)) + 1) tr = Some (Inr (), tr1)
        \<and> DisputeGameFactoryAddr (Cfg (DriverSetup l)) = None
        \<and> ProposeL2OutputTxData l output = Returns (Inr data)
        \<and> cand = \<lparr>TxData = data, To = L2OutputOracleAddr (Cfg (DriverSetup l)), GasLimit = 0, Value = None\<rparr>"
  then have st: "sendTransaction fuel l output tr =
           (case Send (Txmgr (DriverSetup l)) (length tr1) cand of
              Inl err \<Rightarrow> Some (Returns (Inl err), tr1 @ [EvSend cand])
            | Inr receipt \<Rightarrow> Some (Returns (Inr ()), tr1 @ [EvSend cand]))"
    using sendTransaction_registry_send [of fuel l "output" tr tr1 data]
    by (auto split: sum.splits)
  { fix receipt
    assume "Send (Txmgr (DriverSetup l)) (length tr1) cand = Inr receipt
              \<and> ReceiptStatus receipt = ReceiptStatusFailed"
    with st show "proposeOutput fuel l output tr
               = Some (Returns (), tr1 @ [EvSend cand, EvRecordL2BlocksProposed (BlockRef output)])"
      by (simp add: proposeOutput_def) }
  { fix receipt
    assume "Send (Txmgr (DriverSetup l)) (length tr1) cand = Inr receipt
              \<and> ReceiptStatus receipt \<noteq> ReceiptStatusFailed"
    with st show "proposeOutput fuel l output tr
               = Some (Returns (), tr1 @ [EvSend cand, EvRecordL2BlocksProposed (BlockRef output)])"
      by (simp add: proposeOutput_def) }
  { fix err
    assume "Send (Txmgr (DriverSetup l)) (length tr1) cand = Inl err"
    with st show "proposeOutput fuel l output tr = Some (Returns (), tr1 @ [EvSend cand])"
      by (simp add: proposeOutput_def) }
next
  fix tr1 tr2 data bond cand
  assume h: "waitForL1Head fuel l (L1_Number (HeadL1 (Status output)) + 1) tr = Some (Inr (), tr1)
        \<and> DisputeGameFactoryAddr (Cfg (DriverSetup l)) \<noteq> None
        \<and> ProposeL2OutputDGFTxData l output tr1 = (Returns (Inr (data, bond)), tr2)
        \<and> cand = \<lparr>TxData = data, To = DisputeGameFactoryAddr (Cfg (DriverSetup l)), GasLimit = 0, Value = Some bond\<rparr>"
  then have st: "sendTransaction fuel l output tr =
           (case Send (Txmgr (DriverSetup l)) (length tr2) cand of
              Inl err \<Rightarrow> Some (Returns (Inl err), tr2 @ [EvSend cand])
            | Inr receipt \<Rightarrow> Some (Returns (Inr ()), tr2 @ [EvSend cand]))"
    using sendTransaction_factory_send [of fuel l "output" tr tr1 data bond tr2]
    by (auto split: sum.splits)
  { fix receipt
    assume "Send (Txmgr (DriverSetup l)) (length tr2) cand = Inr receipt
              \<and> ReceiptStatus receipt = ReceiptStatusFailed"
    with st show "proposeOutput fuel l output tr
               = Some (Returns (), tr2 @ [EvSend cand, EvRecordL2BlocksProposed (BlockRef output)])"
      by (simp add: proposeOutput_def) }
  { fix receipt
    assume "Send (Txmgr (DriverSetup l)) (length tr2) cand = Inr receipt
              \<and> ReceiptStatus receipt \<noteq> ReceiptStatusFailed"
    with st show "proposeOutput fuel l output tr
               = Some (Returns (), tr2 @ [EvSend cand, EvRecordL2BlocksProposed (BlockRef output)])"
      by (simp add: proposeOutput_def) }
  { fix err
    assume "Send (Txmgr (DriverSetup l)) (length tr2) cand = Inl err"
    with st show "proposeOutput fuel l output tr = Some (Returns (), tr2 @ [EvSend cand])"
      by (simp add: proposeOutput_def) }
qed

theorem proposeOutput_records_metric_witness:
  "proposeOutput 0 (ex_head_setup (\<lambda>t. Inr 62) ex_send_reverted (\<lambda>t. TickerFired)) (ex_output 0 100) []
     = Some (Returns (),
         [EvBlockNumber (Inr 62),
          EvSend \<lparr>TxData = [], To = Some 11, GasLimit = 0, Value = None\<rparr>,
          EvRecordL2BlocksProposed \<lparr>L2_Hash = 9, L2_Number = 100, L2_Time = 0\<rparr>])
   \<and> proposeOutput 0 (ex_head_setup (\<lambda>t. Inr 62) ex_send_fails (\<lambda>t. TickerFired)) (ex_output 0 100) []
     = Some (Returns (),
         [EvBlockNumber (Inr 62),
          EvSend \<lparr>TxData = [], To = Some 11, GasLimit = 0, Value = None\<rparr>])
   \<and> proposeOutput 0 (ex_head_setup (\<lambda>t. Inl (External ''rpc'')) ex_send_ok (\<lambda>t. TickerFired))
         (ex_output 0 100) []
     = Some (Returns (), [EvBlockNumber (Inl (External ''rpc''))])"
proof -
  have a: "sendTransaction 0 (ex_head_setup (\<lambda>t. Inr 62) ex_send_reverted (\<lambda>t. TickerFired))
             (ex_output 0 100) []
      = Some (Returns (Inr ()),
          [EvBlockNumber (Inr 62), EvSend \<lparr>TxData = [], To = Some 11, GasLimit = 0, Value = None\<rparr>])"
    by (simp add: run_defs ex_send_reverted_def)
  have b: "sendTransaction 0 (ex_head_setup (\<lambda>t. Inr 62) ex_send_fails (\<lambda>t. TickerFired))
             (ex_output 0 100) []
      = Some (Returns (Inl (External ''send failed'')),
          [EvBlockNumber (Inr 62), EvSend \<lparr>TxData = [], To = Some 11, GasLimit = 0, Value = None\<rparr>])"
    by (simp add: run_defs ex_send_fails_def)
  have c: "sendTransaction 0 (ex_head_setup (\<lambda>t. Inl (External ''rpc'')) ex_send_ok (\<lambda>t. TickerFired))
             (ex_output 0 100) []
      = Some (Returns (Inl (External ''rpc'')), [EvBlockNumber (Inl (External ''rpc''))])"
    by (simp add: run_defs)
  have o: "BlockRef (ex_output 0 100) = \<lparr>L2_Hash = 9, L2_Number = 100, L2_Time = 0\<rparr>"
    by (simp add: ex_output_def)
  from a b c o
    proposeOutput_records_metric
      [of 0 "ex_head_setup (\<lambda>t. Inr 62) ex_send_reverted (\<lambda>t. TickerFired)" "ex_output 0 100" "[]"]
    proposeOutput_records_metric
      [of 0 "ex_head_setup (\<lambda>t. Inr 62) ex_send_fails (\<lambda>t. TickerFired)" "ex_output 0 100" "[]"]
    proposeOutput_records_metric
      [of 0 "ex_head_setup (\<lambda>t. Inl (External ''rpc'')) ex_send_ok (\<lambda>t. TickerFired)"
          "ex_output 0 100" "[]"]
  show ?thesis by simp
qed

subsection \<open>Retrying in factory mode\<close>

lemma FetchDGFOutput_trace:
  assumes "FetchDGFOutput l tr = (r, tr')"
  shows "\<exists>ext. tr' = tr @ ext \<and> (\<forall>i. EvSleep i \<notin> set ext)"
proof -
  from assms have "tr' = tr @ [EvRollupClient] \<or> tr' = tr @ [EvRollupClient, EvSyncStatus]
      \<or> tr' = tr @ [EvRollupClient, EvSyncStatus, EvRollupClient]
      \<or> (\<exists>b. tr' = tr @ [EvRollupClient, EvSyncStatus, EvRollupClient, EvOutputAtBlock b])"
    by (auto simp: FetchDGFOutput_def FetchCurrentBlockNumber_def FetchOutput_def Let_def
        split: sum.splits if_splits prod.splits)
  then show ?thesis by auto
qed

lemma dgf_fetch_fails_retry:
  "dgf_fetch_fails n l tr = Some trn \<Longrightarrow> loopDGF_retry (n + k) l tr = loopDGF_retry k l trn"
proof (induction n arbitrary: tr)
  case 0
  then show ?case by simp
next
  case (Suc n)
  from Suc.prems obtain err tr1 where
    d: "\<not> done_poll (DriverSetup l) (length tr)"
    and f: "FetchDGFOutput l (tr @ [EvPollDone False]) = (Inl err, tr1)"
    and r: "dgf_fetch_fails n l (tr1 @ [EvSleep (OutputRetryInterval (Cfg (DriverSetup l)))]) = Some trn"
    by (auto split: if_splits prod.splits sum.splits)
  from Suc.IH [OF r] d f show ?case by simp
qed

lemma dgf_fetch_fails_sleeps:
  "dgf_fetch_fails n l tr = Some trn \<Longrightarrow>
     \<exists>ext. trn = tr @ ext \<and> count_list ext (EvSleep (OutputRetryInterval (Cfg (DriverSetup l)))) = n
        \<and> (\<forall>i. EvSleep i \<in> set ext \<longrightarrow> i = OutputRetryInterval (Cfg (DriverSetup l)))"
proof (induction n arbitrary: tr)
  case 0
  then show ?case by simp
next
  case (Suc n)
  let ?s = "EvSleep (OutputRetryInterval (Cfg (DriverSetup l)))"
  from Suc.prems obtain err tr1 where
    f: "FetchDGFOutput l (tr @ [EvPollDone False]) = (Inl err, tr1)"
    and r: "dgf_fetch_fails n l (tr1 @ [?s]) = Some trn"
    by (auto split: if_splits prod.splits sum.splits)
  from FetchDGFOutput_trace [OF f] obtain e1 where
    e1: "tr1 = (tr @ [EvPollDone False]) @ e1" "\<forall>i. EvSleep i \<notin> set e1" by blast
  from Suc.IH [OF r] obtain e2 where
    e2: "trn = (tr1 @ [?s]) @ e2" "count_list e2 ?s = n"
      "\<forall>i. EvSleep i \<in> set e2 \<longrightarrow> i = OutputRetryInterval (Cfg (DriverSetup l))"
    by blast
  let ?ext = "[EvPollDone False] @ e1 @ [?s] @ e2"
  from e1(2) have c1: "count_list e1 ?s = 0" by (simp add: count_list_0_iff)
  from e1 e2 have "trn = tr @ ?ext" by simp
  moreover from c1 e2(2) have "count_list ?ext ?s = Suc n" by simp
  moreover from e1(2) e2(3) have "\<forall>i. EvSleep i \<in> set ?ext \<longrightarrow> i = OutputRetryInterval (Cfg (DriverSetup l))"
    by auto
  ultimately show ?case by blast
qed

lemma loopDGF_retry_exit_done:
  "loopDGF_retry fuel l tr = Some (None, tr') \<Longrightarrow>
     \<exists>pre. tr' = pre @ [EvPollDone True] \<and> done_poll (DriverSetup l) (length pre)"
proof (induction fuel arbitrary: tr)
  case 0
  then show ?case by simp
next
  case (Suc fuel)
  show ?case
  proof (cases "done_poll (DriverSetup l) (length tr)")
    case True
    with Suc.prems show ?thesis by auto
  next
    case False
    with Suc.prems obtain err tr1 where
      "loopDGF_retry fuel l (tr1 @ [EvSleep (OutputRetryInterval (Cfg (DriverSetup l)))]) = Some (None, tr')"
      by (auto split: prod.splits sum.splits)
    then show ?thesis by (rule Suc.IH)
  qed
qed

lemma loopDGF_retry_exit_output:
  "loopDGF_retry fuel l tr = Some (Some output, tr') \<Longrightarrow>
     \<exists>trk. \<not> done_poll (DriverSetup l) (length trk)
        \<and> FetchDGFOutput l (trk @ [EvPollDone False]) = (Inr output, tr')"
proof (induction fuel arbitrary: tr)
  case 0
  then show ?case by simp
next
  case (Suc fuel)
  from Suc.prems have nd: "\<not> done_poll (DriverSetup l) (length tr)"
    by (auto split: if_splits)
  show ?case
  proof (cases "FetchDGFOutput l (tr @ [EvPollDone False])")
    case (Pair r tr1)
    show ?thesis
    proof (cases r)
      case (Inl err)
      with Pair nd Suc.prems have
        "loopDGF_retry fuel l (tr1 @ [EvSleep (OutputRetryInterval (Cfg (DriverSetup l)))]) = Some (Some output, tr')"
        by simp
      then show ?thesis by (rule Suc.IH)
    next
      case (Inr out)
      with Pair nd Suc.prems have "out = output \<and> tr1 = tr'" by simp
      with Pair Inr nd show ?thesis by blast
    qed
  qed
qed

text \<open>
  Claim C7. Within one tick of \<^verbatim>\<open>loopDGF\<close>: if the first \<open>N\<close> fetch attempts fail
  and the next one succeeds, \<^verbatim>\<open>l.done\<close> being open at each check, then with any bound
  above \<open>N\<close> the retry loop ends with that output, the trace of the tick holds exactly
  \<open>N\<close> sleeps, all of the configured retry interval, and the tick goes on to
  \<^verbatim>\<open>proposeOutput\<close> with that output. The loop does not give up: after \<open>N\<close> failed
  attempts it is still running, whatever \<open>N\<close>. It checks \<^verbatim>\<open>l.done\<close> at the start of
  every iteration: found closed after any number of failures, the loop returns at once.
  It is left without an output only by that check, and with an output only by a fetch
  that succeeded.
\<close>

theorem loopDGF_retries_until_success:
  "(\<forall>trN output tr'.
      dgf_fetch_fails N l tr = Some trN \<and> \<not> done_poll (DriverSetup l) (length trN)
      \<and> FetchDGFOutput l (trN @ [EvPollDone False]) = (Inr output, tr') \<longrightarrow>
        (\<forall>k. loopDGF_retry (Suc (N + k)) l tr = Some (Some output, tr'))
        \<and> (\<exists>ext. tr' = tr @ ext
              \<and> count_list ext (EvSleep (OutputRetryInterval (Cfg (DriverSetup l)))) = N
              \<and> (\<forall>i. EvSleep i \<in> set ext \<longrightarrow> i = OutputRetryInterval (Cfg (DriverSetup l))))
        \<and> (\<forall>k. loopDGF_tick (Suc (N + k)) l tr =
              (case proposeOutput (Suc (N + k)) l output tr' of
                 None \<Rightarrow> None
               | Some (Panics p, tr2) \<Rightarrow> Some (Panics p, tr2)
               | Some (Returns u, tr2) \<Rightarrow> Some (Returns False, tr2))))
   \<and> (\<forall>trN. dgf_fetch_fails N l tr = Some trN \<longrightarrow>
        loopDGF_retry N l tr = None
        \<and> (\<forall>k. loopDGF_retry (N + k) l tr = loopDGF_retry k l trN))
   \<and> (\<forall>trN k. dgf_fetch_fails N l tr = Some trN \<and> done_poll (DriverSetup l) (length trN) \<longrightarrow>
        loopDGF_retry (Suc (N + k)) l tr = Some (None, trN @ [EvPollDone True]))
   \<and> (\<forall>fuel tr'. loopDGF_retry fuel l tr = Some (None, tr') \<longrightarrow>
        (\<exists>pre. tr' = pre @ [EvPollDone True] \<and> done_poll (DriverSetup l) (length pre)))
   \<and> (\<forall>fuel output tr'. loopDGF_retry fuel l tr = Some (Some output, tr') \<longrightarrow>
        (\<exists>trk. \<not> done_poll (DriverSetup l) (length trk)
           \<and> FetchDGFOutput l (trk @ [EvPollDone False]) = (Inr output, tr')))"
proof (intro conjI allI impI)
  fix trN out tr'
  assume h: "dgf_fetch_fails N l tr = Some trN \<and> \<not> done_poll (DriverSetup l) (length trN)
      \<and> FetchDGFOutput l (trN @ [EvPollDone False]) = (Inr out, tr')"
  have r: "loopDGF_retry (Suc (N + k)) l tr = Some (Some out, tr')" for k
  proof -
    from h have "loopDGF_retry (N + Suc k) l tr = loopDGF_retry (Suc k) l trN"
      by (simp only: dgf_fetch_fails_retry)
    with h show ?thesis by simp
  qed
  show "\<And>k. loopDGF_retry (Suc (N + k)) l tr = Some (Some out, tr')" by (rule r)
  show "\<And>k. loopDGF_tick (Suc (N + k)) l tr =
              (case proposeOutput (Suc (N + k)) l out tr' of
                 None \<Rightarrow> None
               | Some (Panics p, tr2) \<Rightarrow> Some (Panics p, tr2)
               | Some (Returns u, tr2) \<Rightarrow> Some (Returns False, tr2))"
    by (simp only: loopDGF_tick_def r option.case prod.case)
  from h dgf_fetch_fails_sleeps [of N l tr trN] obtain e1 where
    e1: "trN = tr @ e1" "count_list e1 (EvSleep (OutputRetryInterval (Cfg (DriverSetup l)))) = N"
      "\<forall>i. EvSleep i \<in> set e1 \<longrightarrow> i = OutputRetryInterval (Cfg (DriverSetup l))"
    by blast
  from h FetchDGFOutput_trace [of l "trN @ [EvPollDone False]" "Inr out" tr'] obtain e2 where
    e2: "tr' = (trN @ [EvPollDone False]) @ e2" "\<forall>i. EvSleep i \<notin> set e2"
    by blast
  let ?s = "EvSleep (OutputRetryInterval (Cfg (DriverSetup l)))"
  let ?ext = "e1 @ [EvPollDone False] @ e2"
  from e2(2) have "count_list e2 ?s = 0" by (simp add: count_list_0_iff)
  with e1 e2 have "tr' = tr @ ?ext \<and> count_list ?ext ?s = N
      \<and> (\<forall>i. EvSleep i \<in> set ?ext \<longrightarrow> i = OutputRetryInterval (Cfg (DriverSetup l)))"
    by auto
  then show "\<exists>ext. tr' = tr @ ext \<and> count_list ext ?s = N
      \<and> (\<forall>i. EvSleep i \<in> set ext \<longrightarrow> i = OutputRetryInterval (Cfg (DriverSetup l)))"
    by blast
next
  fix trN
  assume h: "dgf_fetch_fails N l tr = Some trN"
  from dgf_fetch_fails_retry [OF h, of 0] show "loopDGF_retry N l tr = None" by simp
  show "\<And>k. loopDGF_retry (N + k) l tr = loopDGF_retry k l trN"
    using h by (rule dgf_fetch_fails_retry)
next
  fix trN k
  assume h: "dgf_fetch_fails N l tr = Some trN \<and> done_poll (DriverSetup l) (length trN)"
  then have "loopDGF_retry (N + Suc k) l tr = loopDGF_retry (Suc k) l trN"
    by (simp only: dgf_fetch_fails_retry)
  with h show "loopDGF_retry (Suc (N + k)) l tr = Some (None, trN @ [EvPollDone True])"
    by simp
next
  fix fuel tr'
  assume "loopDGF_retry fuel l tr = Some (None, tr')"
  then show "\<exists>pre. tr' = pre @ [EvPollDone True] \<and> done_poll (DriverSetup l) (length pre)"
    by (rule loopDGF_retry_exit_done)
next
  fix fuel out tr'
  assume "loopDGF_retry fuel l tr = Some (Some out, tr')"
  then show "\<exists>trk. \<not> done_poll (DriverSetup l) (length trk)
           \<and> FetchDGFOutput l (trk @ [EvPollDone False]) = (Inr out, tr')"
    by (rule loopDGF_retry_exit_output)
qed


lemmas flaky_defs =
  ex_flaky_factory_def ex_dgf_def ex_setup_def ex_cfg_def ex_rollup_def ex_status_def ex_output_def
  ex_factory_def ex_abi_def ex_send_ok_def
  FetchDGFOutput_def FetchCurrentBlockNumber_def FetchOutput_def supportedL2OutputVersion_def

theorem loopDGF_retries_until_success_witness:
  "loopDGF_retry 3 ex_flaky_factory [] = Some (Some (ex_output 0 100), ex_flaky_trace)
   \<and> count_list ex_flaky_trace (EvSleep 12) = 2
   \<and> loopDGF_retry 2 ex_flaky_factory [] = None
   \<and> loopDGF_tick 3 ex_flaky_factory []
     = Some (Returns False,
         ex_flaky_trace @
         [EvBlockNumber (Inr 62), EvInitBonds 0,
          EvSend \<lparr>TxData = [], To = Some 12, GasLimit = 0, Value = Some 8\<rparr>,
          EvRecordL2BlocksProposed \<lparr>L2_Hash = 9, L2_Number = 100, L2_Time = 0\<rparr>])"
proof -
  let ?t2 = "[EvPollDone False, EvRollupClient, EvSyncStatus, EvRollupClient, EvOutputAtBlock 100,
      EvSleep 12,
      EvPollDone False, EvRollupClient, EvSyncStatus, EvRollupClient, EvOutputAtBlock 100, EvSleep 12]"
  have f: "dgf_fetch_fails (Suc (Suc 0)) ex_flaky_factory [] = Some ?t2"
    by (simp add: flaky_defs)
  have d: "\<not> done_poll (DriverSetup ex_flaky_factory) (length ?t2)"
    by (simp add: flaky_defs)
  have s: "FetchDGFOutput ex_flaky_factory (?t2 @ [EvPollDone False])
      = (Inr (ex_output 0 100), ex_flaky_trace)"
    by (simp add: flaky_defs ex_flaky_trace_def)
  have p: "proposeOutput (Suc ((Suc (Suc 0)) + 0)) ex_flaky_factory (ex_output 0 100) ex_flaky_trace
      = Some (Returns (),
         ex_flaky_trace @
         [EvBlockNumber (Inr 62), EvInitBonds 0,
          EvSend \<lparr>TxData = [], To = Some 12, GasLimit = 0, Value = Some 8\<rparr>,
          EvRecordL2BlocksProposed \<lparr>L2_Hash = 9, L2_Number = 100, L2_Time = 0\<rparr>])"
    by (simp add: proposeOutput_def sendTransaction_def waitForL1Head_def
        ProposeL2OutputDGFTxData_def proposeL2OutputDGFTxData_def ReceiptStatusFailed_def
        ex_flaky_factory_def ex_dgf_def ex_setup_def ex_cfg_def ex_status_def ex_output_def
        ex_factory_def ex_abi_def ex_send_ok_def ex_flaky_trace_def)
  have c: "count_list ex_flaky_trace (EvSleep 12) = (Suc (Suc 0))"
    by (simp add: ex_flaky_trace_def)
  from f d s loopDGF_retries_until_success [of "Suc (Suc 0)" ex_flaky_factory "[]"]
  have "(\<forall>k. loopDGF_retry (Suc ((Suc (Suc 0)) + k)) ex_flaky_factory []
            = Some (Some (ex_output 0 100), ex_flaky_trace))
      \<and> (\<forall>k. loopDGF_tick (Suc ((Suc (Suc 0)) + k)) ex_flaky_factory [] =
              (case proposeOutput (Suc ((Suc (Suc 0)) + k)) ex_flaky_factory (ex_output 0 100) ex_flaky_trace of
                 None \<Rightarrow> None
               | Some (Panics p, tr2) \<Rightarrow> Some (Panics p, tr2)
               | Some (Returns u, tr2) \<Rightarrow> Some (Returns False, tr2)))
      \<and> loopDGF_retry (Suc (Suc 0)) ex_flaky_factory [] = None"
    by blast
  then have "loopDGF_retry (Suc ((Suc (Suc 0)) + 0)) ex_flaky_factory []
            = Some (Some (ex_output 0 100), ex_flaky_trace)
      \<and> loopDGF_tick (Suc ((Suc (Suc 0)) + 0)) ex_flaky_factory [] =
              (case proposeOutput (Suc ((Suc (Suc 0)) + 0)) ex_flaky_factory (ex_output 0 100) ex_flaky_trace of
                 None \<Rightarrow> None
               | Some (Panics p, tr2) \<Rightarrow> Some (Panics p, tr2)
               | Some (Returns u, tr2) \<Rightarrow> Some (Returns False, tr2))
      \<and> loopDGF_retry (Suc (Suc 0)) ex_flaky_factory [] = None"
    by blast
  with p c have "loopDGF_retry (Suc ((Suc (Suc 0)) + 0)) ex_flaky_factory []
        = Some (Some (ex_output 0 100), ex_flaky_trace)
   \<and> count_list ex_flaky_trace (EvSleep 12) = (Suc (Suc 0))
   \<and> loopDGF_retry (Suc (Suc 0)) ex_flaky_factory [] = None
   \<and> loopDGF_tick (Suc ((Suc (Suc 0)) + 0)) ex_flaky_factory []
     = Some (Returns False,
         ex_flaky_trace @
         [EvBlockNumber (Inr 62), EvInitBonds 0,
          EvSend \<lparr>TxData = [], To = Some 12, GasLimit = 0, Value = Some 8\<rparr>,
          EvRecordL2BlocksProposed \<lparr>L2_Hash = 9, L2_Number = 100, L2_Time = 0\<rparr>])"
    by (simp only: option.case prod.case outcome.case)
  moreover have "Suc ((Suc (Suc 0)) + 0) = 3" "(Suc (Suc 0)) = 2" by simp_all
  ultimately show ?thesis by (simp only:)
qed

subsection \<open>Both addresses configured\<close>

lemma newL2OOSubmitter_result:
  assumes "newL2OOSubmitter s tr = (Returns (Inr l), tr')"
  shows "DriverSetup l = s \<and> l2ooContract l \<noteq> None \<and> dgfContract l = None"
  using assms
  by (auto simp: newL2OOSubmitter_def Let_def split: option.splits sum.splits)

lemma deferred_cancel_Some:
  "deferred_cancel r = (Inr (Some l), tr') \<Longrightarrow> r = (Returns (Inr l), tr')"
  by (auto simp: deferred_cancel_def split: prod.splits outcome.splits sum.splits)

lemma sendTransaction_nil_factory:
  assumes "DisputeGameFactoryAddr (Cfg (DriverSetup l)) \<noteq> None" and "dgfContract l = None"
    and "waitForL1Head fuel l (L1_Number (HeadL1 (Status out)) + 1) tr0 = Some (Inr (), tr1)"
  shows "ProposeL2OutputDGFTxData l out tr1 = (Panics NilPointerDereference, tr1)
         \<and> sendTransaction fuel l out tr0 = Some (Panics NilPointerDereference, tr1)
         \<and> proposeOutput fuel l out tr0 = Some (Panics NilPointerDereference, tr1)"
  using assms
  by (simp add: ProposeL2OutputDGFTxData_def sendTransaction_def proposeOutput_def)

text \<open>
  Claim C3. With both the registry address and the factory address configured,
  \<^verbatim>\<open>NewL2OutputSubmitter\<close> takes the registry constructor; a submitter it returns has
  the registry handle set and the factory handle \<^verbatim>\<open>dgfContract\<close> nil, and its worker runs
  \<^verbatim>\<open>loopL2OO\<close>. \<^verbatim>\<open>sendTransaction\<close> branches on the factory address, which is set: once
  the wait for the L1 head has succeeded it calls \<^verbatim>\<open>ProposeL2OutputDGFTxData\<close>, whose
  bond lookup goes through the nil handle, and the run panics there.
\<close>

theorem both_addresses_reach_nil_factory:
  assumes "L2OutputOracleAddr (Cfg s) \<noteq> None" and "DisputeGameFactoryAddr (Cfg s) \<noteq> None"
  shows "NewL2OutputSubmitter s tr = deferred_cancel (newL2OOSubmitter s tr)
         \<and> (\<forall>l tr'. NewL2OutputSubmitter s tr = (Inr (Some l), tr') \<longrightarrow>
               DriverSetup l = s \<and> l2ooContract l \<noteq> None \<and> dgfContract l = None
               \<and> (\<forall>fuel tr0. \<not> WaitNodeSync (Cfg s) \<longrightarrow> loop fuel l tr0 = loopL2OO fuel l tr0)
               \<and> (\<forall>fuel out tr0 tr1.
                     waitForL1Head fuel l (L1_Number (HeadL1 (Status out)) + 1) tr0 = Some (Inr (), tr1) \<longrightarrow>
                       ProposeL2OutputDGFTxData l out tr1 = (Panics NilPointerDereference, tr1)
                       \<and> sendTransaction fuel l out tr0 = Some (Panics NilPointerDereference, tr1)
                       \<and> proposeOutput fuel l out tr0 = Some (Panics NilPointerDereference, tr1)))"
proof (intro conjI allI impI)
  from assms(1) show c: "NewL2OutputSubmitter s tr = deferred_cancel (newL2OOSubmitter s tr)"
    by (simp add: NewL2OutputSubmitter_def)
  fix l tr'
  assume "NewL2OutputSubmitter s tr = (Inr (Some l), tr')"
  with c have "newL2OOSubmitter s tr = (Returns (Inr l), tr')"
    by (simp add: deferred_cancel_Some)
  from newL2OOSubmitter_result [OF this]
  have r: "DriverSetup l = s" "l2ooContract l \<noteq> None" "dgfContract l = None"
    by simp_all
  from r show "DriverSetup l = s" "l2ooContract l \<noteq> None" "dgfContract l = None" by simp_all
  { fix fuel tr0
    assume "\<not> WaitNodeSync (Cfg s)"
    with r show "loop fuel l tr0 = loopL2OO fuel l tr0" by (simp add: loop_def) }
  { fix fuel tr0 tr1 and out :: OutputResponse
    assume w: "waitForL1Head fuel l (L1_Number (HeadL1 (Status out)) + 1) tr0 = Some (Inr (), tr1)"
    from assms(2) r have "DisputeGameFactoryAddr (Cfg (DriverSetup l)) \<noteq> None" by simp
    from sendTransaction_nil_factory [OF this r(3) w]
    show "ProposeL2OutputDGFTxData l out tr1 = (Panics NilPointerDereference, tr1)"
      "sendTransaction fuel l out tr0 = Some (Panics NilPointerDereference, tr1)"
      "proposeOutput fuel l out tr0 = Some (Panics NilPointerDereference, tr1)"
      by simp_all }
qed

lemmas both_defs = ex_both_setup_def ex_l2oo_def ex_setup_def ex_cfg_def ex_rollup_def ex_status_def
  ex_registry_def ex_ok_output_def ex_output_def ex_abi_def ex_send_ok_def

theorem both_addresses_reach_nil_factory_witness:
  "NewL2OutputSubmitter ex_both_setup []
     = (Inr (Some (ex_l2oo ex_both_setup 100)), [EvNewL2OutputOracleCaller 11, EvL2OOVersion, EvGetAbi])
   \<and> dgfContract (ex_l2oo ex_both_setup 100) = None
   \<and> sendTransaction 0 (ex_l2oo ex_both_setup 100) (ex_output 0 100) []
     = Some (Panics NilPointerDereference, [EvBlockNumber (Inr 62)])
   \<and> loop (Suc (Suc 0)) (ex_l2oo ex_both_setup 100) []
     = Some (Panics NilPointerDereference,
         [EvSelect TickerFired, EvPollDone False, EvNextBlockNumber, EvRollupClient, EvSyncStatus,
          EvRollupClient, EvOutputAtBlock 100, EvBlockNumber (Inr 62)])"
proof -
  have n: "NewL2OutputSubmitter ex_both_setup []
     = (Inr (Some (ex_l2oo ex_both_setup 100)), [EvNewL2OutputOracleCaller 11, EvL2OOVersion, EvGetAbi])"
    by (simp add: NewL2OutputSubmitter_def newL2OOSubmitter_def deferred_cancel_def both_defs)
  have a: "L2OutputOracleAddr (Cfg ex_both_setup) \<noteq> None"
    "DisputeGameFactoryAddr (Cfg ex_both_setup) \<noteq> None" "\<not> WaitNodeSync (Cfg ex_both_setup)"
    by (simp_all add: both_defs)
  have w: "waitForL1Head 0 (ex_l2oo ex_both_setup 100)
      (L1_Number (HeadL1 (Status (ex_output 0 100))) + 1) [] = Some (Inr (), [EvBlockNumber (Inr 62)])"
    by (simp add: waitForL1Head_def both_defs)
  from both_addresses_reach_nil_factory [OF a(1,2), of "[]"] n a(3) w
  have "dgfContract (ex_l2oo ex_both_setup 100) = None
      \<and> sendTransaction 0 (ex_l2oo ex_both_setup 100) (ex_output 0 100) []
         = Some (Panics NilPointerDereference, [EvBlockNumber (Inr 62)])
      \<and> loop (Suc (Suc 0)) (ex_l2oo ex_both_setup 100) []
         = loopL2OO (Suc (Suc 0)) (ex_l2oo ex_both_setup 100) []"
    by blast
  moreover have "loopL2OO (Suc (Suc 0)) (ex_l2oo ex_both_setup 100) []
     = Some (Panics NilPointerDereference,
         [EvSelect TickerFired, EvPollDone False, EvNextBlockNumber, EvRollupClient, EvSyncStatus,
          EvRollupClient, EvOutputAtBlock 100, EvBlockNumber (Inr 62)])"
    by (simp add: loopL2OO_tick_def FetchL2OOOutput_def FetchCurrentBlockNumber_def FetchOutput_def
        supportedL2OutputVersion_def proposeOutput_def sendTransaction_def waitForL1Head_def
        ProposeL2OutputDGFTxData_def both_defs)
  ultimately show ?thesis using n by simp
qed

subsection \<open>Lifecycle\<close>

text \<open>
  Claim C6, as the code has it. \<^verbatim>\<open>StartL2OutputSubmitting\<close> fails with the
  already-running error exactly when the submitter is running, and otherwise sets the
  flag, adds one to the wait group and spawns one worker. \<^verbatim>\<open>StopL2OutputSubmitting\<close>
  fails with \<^verbatim>\<open>ErrProposerNotRunning\<close> exactly when the submitter is not running, and
  leaves it unchanged then. Called on a running submitter whose \<^verbatim>\<open>done\<close> channel is
  still open, it cancels the context, closes \<^verbatim>\<open>done\<close> and returns success with the wait
  group drained; it does not return while a worker stays alive.
  \<^verbatim>\<open>StopL2OutputSubmittingIfRunning\<close> returns success where the stop reports
  not-running, and the stop's result otherwise.
\<close>

theorem lifecycle_start_stop:
  "((fst (StartL2OutputSubmitting l) = Inl AlreadyRunning) = running l)
   \<and> (running l \<longrightarrow> StartL2OutputSubmitting l = (Inl AlreadyRunning, l))
   \<and> (\<not> running l \<longrightarrow>
        StartL2OutputSubmitting l
          = (Inr (), l\<lparr>running := True, wg := wg l + 1, spawned := spawned l + 1\<rparr>))
   \<and> ((\<exists>l'. StopL2OutputSubmitting workers_exit l = Some (Returns (Inl ErrProposerNotRunning), l'))
        = (\<not> running l))
   \<and> (\<not> running l \<longrightarrow>
        StopL2OutputSubmitting workers_exit l = Some (Returns (Inl ErrProposerNotRunning), l))
   \<and> (running l \<and> \<not> done_closed l \<longrightarrow>
        ((StopL2OutputSubmitting workers_exit l = None) = (wg l \<noteq> 0 \<and> \<not> workers_exit))
        \<and> (wg l = 0 \<or> workers_exit \<longrightarrow>
              StopL2OutputSubmitting workers_exit l
                = Some (Returns (Inr ()),
                    l\<lparr>running := False, ctx_cancelled := True, done_closed := True, wg := 0\<rparr>)))
   \<and> (\<not> running l \<longrightarrow> StopL2OutputSubmittingIfRunning workers_exit l = Some (Returns (Inr ()), l))
   \<and> (running l \<longrightarrow>
        StopL2OutputSubmittingIfRunning workers_exit l = StopL2OutputSubmitting workers_exit l)"
  by (auto simp: StartL2OutputSubmitting_def StopL2OutputSubmitting_def
      StopL2OutputSubmittingIfRunning_def wg_Wait_def Let_def split: option.splits)

lemmas life_defs = ex_fresh_def ex_started_def ex_stopped_def ex_restarted_def
  ex_registry_submitter_def ex_l2oo_def
  StartL2OutputSubmitting_def StopL2OutputSubmitting_def StopL2OutputSubmittingIfRunning_def wg_Wait_def

theorem lifecycle_start_stop_witness:
  "StartL2OutputSubmitting ex_fresh = (Inr (), ex_started)
   \<and> StartL2OutputSubmitting ex_started = (Inl AlreadyRunning, ex_started)
   \<and> StopL2OutputSubmitting True ex_started = Some (Returns (Inr ()), ex_stopped)
   \<and> StopL2OutputSubmitting False ex_started = None
   \<and> StopL2OutputSubmitting False (loop_returns ex_started) = Some (Returns (Inr ()), ex_stopped)
   \<and> StopL2OutputSubmitting True ex_stopped = Some (Returns (Inl ErrProposerNotRunning), ex_stopped)
   \<and> StopL2OutputSubmittingIfRunning True ex_stopped = Some (Returns (Inr ()), ex_stopped)
   \<and> StopL2OutputSubmittingIfRunning True ex_started = Some (Returns (Inr ()), ex_stopped)"
proof -
  have r: "\<not> running ex_fresh" "running ex_started" "\<not> done_closed ex_started" "wg ex_started = 1"
    "\<not> running ex_stopped" "running (loop_returns ex_started)"
    "\<not> done_closed (loop_returns ex_started)" "wg (loop_returns ex_started) = 0"
    by (simp_all add: life_defs loop_returns_def)
  have e: "ex_fresh\<lparr>running := True, wg := wg ex_fresh + 1, spawned := spawned ex_fresh + 1\<rparr> = ex_started"
    "ex_started\<lparr>running := False, ctx_cancelled := True, done_closed := True, wg := 0\<rparr> = ex_stopped"
    "(loop_returns ex_started)\<lparr>running := False, ctx_cancelled := True, done_closed := True, wg := 0\<rparr>
       = ex_stopped"
    by (simp_all add: life_defs loop_returns_def)
  from r e lifecycle_start_stop [of ex_fresh True] lifecycle_start_stop [of ex_started True]
    lifecycle_start_stop [of ex_started False] lifecycle_start_stop [of ex_stopped True]
    lifecycle_start_stop [of "loop_returns ex_started" False]
  show ?thesis by simp
qed

text \<open>
  Claim C6 as stated fails on a submitter that is started again after a stop: the
  channel \<^verbatim>\<open>done\<close> is made once, by the constructor, so the second stop, called while
  running, closes a closed channel and panics instead of waiting and returning.
\<close>

theorem stop_after_restart_counterexample:
  "StartL2OutputSubmitting ex_fresh = (Inr (), ex_started)
   \<and> StopL2OutputSubmitting True ex_started = Some (Returns (Inr ()), ex_stopped)
   \<and> StartL2OutputSubmitting ex_stopped = (Inr (), ex_restarted)
   \<and> running ex_restarted
   \<and> StopL2OutputSubmitting True ex_restarted
       = Some (Panics CloseOfClosedChannel, ex_restarted\<lparr>running := False\<rparr>)"
  by (simp add: life_defs)

end
